theory Spec2Isabelle
  imports Complex_Main
begin

section \<open>Numbers\<close>

text \<open>
  The cells of a DataFrame and the entries of a numpy array are float64 values. They are
  modelled as exact reals together with the three special values that numpy produces
  instead of raising: a finite value is a real number (no rounding, overflow, underflow or
  signed zero), and \<open>PInf\<close>, \<open>NInf\<close> and \<open>NaN\<close> follow the IEEE rules for
  infinities and not-a-number. Division by zero and the square root of a negative number
  therefore give a value, as in numpy, and never an exception.
\<close>

datatype fl = Fin real | PInf | NInf | NaN

instantiation fl :: "{zero, one, plus, uminus, minus, times, inverse}"
begin

definition zero_fl :: fl where
  "zero_fl = Fin 0"

definition one_fl :: fl where
  "one_fl = Fin 1"

fun plus_fl :: "fl \<Rightarrow> fl \<Rightarrow> fl" where
  "plus_fl (Fin a) (Fin b) = Fin (a + b)"
| "plus_fl (Fin a) PInf = PInf"
| "plus_fl (Fin a) NInf = NInf"
| "plus_fl PInf (Fin b) = PInf"
| "plus_fl PInf PInf = PInf"
| "plus_fl PInf NInf = NaN"
| "plus_fl NInf (Fin b) = NInf"
| "plus_fl NInf NInf = NInf"
| "plus_fl NInf PInf = NaN"
| "plus_fl NaN y = NaN"
| "plus_fl x NaN = NaN"

fun uminus_fl :: "fl \<Rightarrow> fl" where
  "uminus_fl (Fin a) = Fin (- a)"
| "uminus_fl PInf = NInf"
| "uminus_fl NInf = PInf"
| "uminus_fl NaN = NaN"

definition minus_fl :: "fl \<Rightarrow> fl \<Rightarrow> fl" where
  "minus_fl x y = x + (- y)"

fun times_fl :: "fl \<Rightarrow> fl \<Rightarrow> fl" where
  "times_fl (Fin a) (Fin b) = Fin (a * b)"
| "times_fl (Fin a) PInf = (if a = 0 then NaN else if 0 < a then PInf else NInf)"
| "times_fl (Fin a) NInf = (if a = 0 then NaN else if 0 < a then NInf else PInf)"
| "times_fl PInf (Fin b) = (if b = 0 then NaN else if 0 < b then PInf else NInf)"
| "times_fl NInf (Fin b) = (if b = 0 then NaN else if 0 < b then NInf else PInf)"
| "times_fl PInf PInf = PInf"
| "times_fl PInf NInf = NInf"
| "times_fl NInf PInf = NInf"
| "times_fl NInf NInf = PInf"
| "times_fl NaN y = NaN"
| "times_fl x NaN = NaN"

fun divide_fl :: "fl \<Rightarrow> fl \<Rightarrow> fl" where
  "divide_fl (Fin a) (Fin b) =
     (if b = 0 then (if a = 0 then NaN else if 0 < a then PInf else NInf)
      else Fin (a / b))"
| "divide_fl (Fin a) PInf = Fin 0"
| "divide_fl (Fin a) NInf = Fin 0"
| "divide_fl PInf (Fin b) = (if 0 \<le> b then PInf else NInf)"
| "divide_fl NInf (Fin b) = (if 0 \<le> b then NInf else PInf)"
| "divide_fl PInf PInf = NaN"
| "divide_fl PInf NInf = NaN"
| "divide_fl NInf PInf = NaN"
| "divide_fl NInf NInf = NaN"
| "divide_fl NaN y = NaN"
| "divide_fl x NaN = NaN"

definition inverse_fl :: "fl \<Rightarrow> fl" where
  "inverse_fl x = divide (Fin 1) x"

instance ..

end

instance fl :: comm_monoid_add
proof
  fix u v w :: fl
  show "u + v = v + u"
    by (cases u; cases v) auto
  show "(u + v) + w = u + (v + w)"
    by (cases u; cases v; cases w) auto
  show "0 + u = u"
    unfolding zero_fl_def by (cases u) auto
qed

text \<open>\<open>np.sqrt\<close>, \<open>np.exp\<close>, \<open>np.log\<close> and \<open>np.abs\<close> on one value.\<close>

fun fsqrt :: "fl \<Rightarrow> fl" where
  "fsqrt (Fin a) = (if a < 0 then NaN else Fin (sqrt a))"
| "fsqrt PInf = PInf"
| "fsqrt NInf = NaN"
| "fsqrt NaN = NaN"

fun fexp :: "fl \<Rightarrow> fl" where
  "fexp (Fin a) = Fin (exp a)"
| "fexp PInf = PInf"
| "fexp NInf = Fin 0"
| "fexp NaN = NaN"

fun flog :: "fl \<Rightarrow> fl" where
  "flog (Fin a) = (if a < 0 then NaN else if a = 0 then NInf else Fin (ln a))"
| "flog PInf = PInf"
| "flog NInf = NaN"
| "flog NaN = NaN"

fun fabs :: "fl \<Rightarrow> fl" where
  "fabs (Fin a) = Fin \<bar>a\<bar>"
| "fabs PInf = PInf"
| "fabs NInf = PInf"
| "fabs NaN = NaN"

fun is_fin :: "fl \<Rightarrow> bool" where
  "is_fin (Fin a) = True"
| "is_fin PInf = False"
| "is_fin NInf = False"
| "is_fin NaN = False"

section \<open>Vectors and matrices\<close>

text \<open>
  A one-dimensional array is a list, a two-dimensional array the list of its rows.
  \<open>dot\<close> is the inner product of \<open>np.dot\<close>, \<open>mat_vec\<close> the product of a matrix
  and a vector, \<open>eye\<close> is \<open>np.eye\<close>, \<open>diag\<close> is \<open>np.diag\<close> of a matrix.
\<close>

definition dot :: "'a::{comm_monoid_add, times} list \<Rightarrow> 'a list \<Rightarrow> 'a" where
  "dot u v = sum_list (map2 (*) u v)"

definition mat_vec :: "'a::{comm_monoid_add, times} list list \<Rightarrow> 'a list \<Rightarrow> 'a list" where
  "mat_vec A v = map (\<lambda>r. dot r v) A"

definition eye :: "nat \<Rightarrow> fl list list" where
  "eye k = map (\<lambda>i. map (\<lambda>j. if i = j then Fin 1 else Fin 0) [0..<k]) [0..<k]"

definition diag :: "'a list list \<Rightarrow> 'a list" where
  "diag A = map (\<lambda>i. A ! i ! i) [0..<length A]"

definition scale :: "fl \<Rightarrow> fl list list \<Rightarrow> fl list list" where
  "scale c A = map (map (\<lambda>a. c * a)) A"

definition square :: "nat \<Rightarrow> 'a list list \<Rightarrow> bool" where
  "square k A \<longleftrightarrow> length A = k \<and> list_all (\<lambda>r. length r = k) A"

section \<open>Tables\<close>

text \<open>
  A pandas Series is its index (one label per row) and its values; a DataFrame is its
  row index and its columns in order, each a name with the values of the column.
  Column names may repeat, as pandas allows, and so may row labels. In a table that
  pandas has built, every column has one value per row label, and a Series one value per
  label.
\<close>

datatype label = LInt int | LStr string

record series =
  s_index :: "label list"
  s_values :: "fl list"

record frame =
  df_index :: "label list"
  df_columns :: "(string \<times> fl list) list"

text \<open>\<open>np.shape(x)\<close> of a DataFrame: the numbers of rows and of columns.\<close>

definition shape :: "frame \<Rightarrow> nat \<times> nat" where
  "shape f = (length (df_index f), length (df_columns f))"

definition column_names :: "frame \<Rightarrow> string list" where
  "column_names f = map fst (df_columns f)"

text \<open>\<open>x.iloc[i]\<close>: the values of row \<open>i\<close>, by position.\<close>

definition iloc :: "frame \<Rightarrow> nat \<Rightarrow> fl list" where
  "iloc f i = map (\<lambda>c. snd c ! i) (df_columns f)"

text \<open>
  \<open>pd.Series(values)\<close> gets the default index \<open>0 .. n-1\<close>. \<open>reindex\<close> reads a
  Series with unique labels at the labels of another index: a label the Series does not
  have gives a missing value.
\<close>

definition pd_Series :: "fl list \<Rightarrow> series" where
  "pd_Series vs = \<lparr>s_index = map (\<lambda>i. LInt (int i)) [0..<length vs], s_values = vs\<rparr>"

definition reindex :: "series \<Rightarrow> label list \<Rightarrow> fl list" where
  "reindex s target =
     map (\<lambda>l. case map_of (zip (s_index s) (s_values s)) l of Some v \<Rightarrow> v | None \<Rightarrow> NaN) target"

text \<open>
  \<open>x.assign(name=s)\<close>: the Series is aligned to the row index of the frame; a column
  of that name is replaced where it stands (every one of them when the name repeats),
  otherwise the new column is appended.
\<close>

definition assign :: "frame \<Rightarrow> string \<Rightarrow> series \<Rightarrow> frame" where
  "assign f name s =
     (let vs = reindex s (df_index f) in
      if name \<in> set (column_names f)
      then f\<lparr>df_columns := map (\<lambda>c. if fst c = name then (name, vs) else c) (df_columns f)\<rparr>
      else f\<lparr>df_columns := df_columns f @ [(name, vs)]\<rparr>)"

section \<open>The regression model\<close>

datatype error = RuntimeError string | ValueError | IndexError | LinAlgError

datatype yval = YSeries series | YFrame frame

type_synonym results = "(string \<times> (string \<times> fl) list) list"

record model =
  self_x :: frame
  self_y :: yval
  self_create_intercept :: bool
  self_regression_type :: string
  self_results :: "results option"

text \<open>The arguments of the constructor are untyped Python values.\<close>

datatype pyval = PyFrame frame | PySeries series | PyBool bool | PyStr string | PyInt int | PyNone

definition quoted :: "string \<Rightarrow> string" where
  "quoted s = [CHR 0x27] @ s @ [CHR 0x27]"

definition add_intercept :: "model \<Rightarrow> model" where
  "add_intercept self =
     self\<lparr>self_x := assign (self_x self) ''intercept''
                      (pd_Series (replicate (fst (shape (self_x self))) (Fin 1)))\<rparr>"

definition init :: "pyval \<Rightarrow> pyval \<Rightarrow> pyval \<Rightarrow> pyval \<Rightarrow> error + model" where
  "init x y create_intercept regression_type =
     (case x of
        PyFrame fx \<Rightarrow>
          (case (case y of PyFrame fy \<Rightarrow> Some (YFrame fy) | PySeries sy \<Rightarrow> Some (YSeries sy)
                           | _ \<Rightarrow> None) of
             Some vy \<Rightarrow>
               (case create_intercept of
                  PyBool b \<Rightarrow>
                    (let self = \<lparr>self_x = fx, self_y = vy, self_create_intercept = b,
                                 self_regression_type = [], self_results = None\<rparr>;
                         self = (if b then add_intercept self else self)
                     in case regression_type of
                          PyStr t \<Rightarrow>
                            if t = ''ols'' then Inr (self\<lparr>self_regression_type := t\<rparr>)
                            else if t = ''logit'' then Inr (self\<lparr>self_regression_type := t\<rparr>)
                            else Inl (RuntimeError (''Only OLS and Logistic regressions (''
                                   @ quoted ''ols'' @ '' or '' @ quoted ''logit''
                                   @ '', respectively) are supported''))
                        | _ \<Rightarrow>
                            Inl (RuntimeError (''Parameter '' @ quoted ''regression_type''
                                   @ '' must be a string with value '' @ quoted ''ols''
                                   @ '' or '' @ quoted ''logit'' @ ''.'')))
                | _ \<Rightarrow>
                    Inl (RuntimeError (''Parameter '' @ quoted ''create_intercept''
                           @ '' must be a boolean value.'')))
           | None \<Rightarrow> Inl (RuntimeError (''Matrix '' @ quoted ''y'' @ '' is not a DataFrame.'')))
      | _ \<Rightarrow> Inl (RuntimeError (''Matrix '' @ quoted ''x'' @ '' is not a DataFrame.'')))"

section \<open>Library routines\<close>

text \<open>
  numpy's linear solver and matrix inverse, scipy's distribution tails and scipy's
  minimiser are not code of the repository. They are parameters of the model: a solver
  and an inverse that may raise \<open>LinAlgError\<close>, the survival functions
  \<open>stat.t.sf\<close> and \<open>stat.norm.sf\<close>, and \<open>minimize\<close>, which receives the objective,
  the start vector and the gradient and returns its result object, of which the model
  keeps the fields \<open>x\<close> and \<open>success\<close>. They return arrays of the shapes numpy and
  scipy promise: \<open>solve(A, B)\<close> the shape of \<open>B\<close>, \<open>inv(A)\<close> the shape of \<open>A\<close>,
  \<open>minimize(f, x0).x\<close> the shape of \<open>x0\<close>. What pandas broadcasting does with a
  response \<open>y\<close> that is a DataFrame rather than a Series is left uninterpreted
  (\<open>frame_response_ols\<close>, \<open>frame_response_logit\<close>). Printing is not modelled.
\<close>

record opt_result =
  opt_x :: "fl list"
  opt_success :: bool

record lib =
  np_linalg_solve :: "fl list list \<Rightarrow> fl list list \<Rightarrow> error + fl list list"
  np_linalg_inv :: "fl list list \<Rightarrow> error + fl list list"
  stat_t_sf :: "fl \<Rightarrow> int \<Rightarrow> fl"
  stat_norm_sf :: "fl \<Rightarrow> fl"
  minimize :: "(fl list \<Rightarrow> error + fl) \<Rightarrow> fl list \<Rightarrow> (fl list \<Rightarrow> error + fl list)
                 \<Rightarrow> error + opt_result"
  frame_response_ols :: "frame \<Rightarrow> frame \<Rightarrow> error + results"
  frame_response_logit :: "frame \<Rightarrow> frame \<Rightarrow> error + results"

section \<open>Products of tables\<close>

text \<open>
  \<open>x.T.dot(x)\<close>: both operands carry the row index of \<open>x\<close>, so the product is by
  position and never fails.
\<close>

definition xT_dot_x :: "frame \<Rightarrow> fl list list" where
  "xT_dot_x f = map (\<lambda>ci. map (\<lambda>cj. dot (snd ci) (snd cj)) (df_columns f)) (df_columns f)"

text \<open>
  A product or difference of \<open>x\<close> with the Series \<open>y\<close> aligns \<open>y\<close> to the row
  index of \<open>x\<close> by label. With equal indexes that is by position; with two duplicate-free
  indexes of the same labels \<open>y\<close> is reordered; in every other case (also when the row
  counts differ) pandas raises \<open>ValueError\<close>.
\<close>

definition align :: "label list \<Rightarrow> series \<Rightarrow> error + fl list" where
  "align ix s =
     (if s_index s = ix then Inr (s_values s)
      else if distinct ix \<and> distinct (s_index s) \<and> set ix = set (s_index s)
      then Inr (reindex s ix)
      else Inl ValueError)"

definition xT_dot :: "frame \<Rightarrow> fl list \<Rightarrow> fl list" where
  "xT_dot f v = map (\<lambda>c. dot (snd c) v) (df_columns f)"

text \<open>\<open>x.dot(beta)\<close> with an array \<open>beta\<close>: by position, one value per row.\<close>

definition x_dot :: "frame \<Rightarrow> fl list \<Rightarrow> fl list" where
  "x_dot f b = map (\<lambda>i. dot (iloc f i) b) [0..<fst (shape f)]"

section \<open>The results dictionary\<close>

text \<open>
  A Python dictionary keeps its keys in insertion order; storing under a key it already
  has replaces the value where the key stands.
\<close>

fun setitem :: "('k \<times> 'v) list \<Rightarrow> 'k \<Rightarrow> 'v \<Rightarrow> ('k \<times> 'v) list" where
  "setitem [] k v = [(k, v)]"
| "setitem (p # ps) k v = (if fst p = k then (k, v) # ps else p # setitem ps k v)"

definition fill_results :: "string list \<Rightarrow> (nat \<Rightarrow> (string \<times> fl) list) \<Rightarrow> results" where
  "fill_results names entry =
     foldl (\<lambda>d i. setitem d (snd i) (entry (fst i))) [] (enumerate 0 names)"

section \<open>Ordinary least squares\<close>

definition ols_entry :: "fl list \<Rightarrow> fl list \<Rightarrow> fl list \<Rightarrow> fl list \<Rightarrow> nat \<Rightarrow> (string \<times> fl) list" where
  "ols_entry beta serror tstat pval i =
     [(''coefficient'', beta ! i), (''standard_error'', serror ! i),
      (''t_stat'', tstat ! i), (''p_value'', pval ! i)]"

text \<open>
  \<open>ols_regression\<close> reads \<open>x\<close> and \<open>y\<close> and stores the results mapping. The solver
  is called before \<open>x.T.dot(y)\<close> is formed, as the arguments of \<open>np.dot\<close> are evaluated
  from left to right. The residuals \<open>y - x.dot(beta)\<close> align \<open>y\<close> to the rows of \<open>x\<close>
  as the product \<open>x.T.dot(y)\<close> has done before, and only the sum of their squares is used.
  For the covariance matrix the solver is called a second time, with the same arguments.
  Division by \<open>n - k = 0\<close> and by a standard error 0 are divisions of numpy floats.
\<close>

definition ols_regression :: "lib \<Rightarrow> model \<Rightarrow> error + model" where
  "ols_regression L self =
     (case self_y self of
        YFrame fy \<Rightarrow>
          (case frame_response_ols L (self_x self) fy of
             Inl e \<Rightarrow> Inl e
           | Inr r \<Rightarrow> Inr (self\<lparr>self_results := Some r\<rparr>))
      | YSeries y \<Rightarrow>
          (let x = self_x self; n = fst (shape x); k = snd (shape x) in
           case np_linalg_solve L (xT_dot_x x) (eye k) of
             Inl e \<Rightarrow> Inl e
           | Inr Z \<Rightarrow>
          (case align (df_index x) y of
             Inl e \<Rightarrow> Inl e
           | Inr yv \<Rightarrow>
          (let beta = mat_vec Z (xT_dot x yv);
               eps = map2 (-) yv (x_dot x beta);
               shat = dot eps eps / Fin (real_of_int (int n - int k)) in
           case np_linalg_solve L (xT_dot_x x) (eye k) of
             Inl e \<Rightarrow> Inl e
           | Inr Z2 \<Rightarrow>
          (let covar = scale shat Z2;
               var = diag covar;
               serror = map fsqrt var;
               tstat = map (\<lambda>i. snd i / serror ! fst i) (enumerate 0 beta);
               pval = map (\<lambda>t. stat_t_sf L t (int n - int k)) tstat
           in Inr (self\<lparr>self_results :=
                     Some (fill_results (column_names x) (ols_entry beta serror tstat pval))\<rparr>))))))"

text \<open>
  The same function body for a Series \<open>y\<close>, with every call of \<open>np.linalg.solve\<close>
  written to a log as it is made: the arguments of each call, in the order of the calls.
  It returns the log and what the body hands to \<open>self.results\<close>.
\<close>

datatype lib_call = SolveCall "fl list list" "fl list list"

definition ols_series_traced :: "lib \<Rightarrow> frame \<Rightarrow> series \<Rightarrow> lib_call list \<times> (error + results)" where
  "ols_series_traced L x y =
     (let n = fst (shape x); k = snd (shape x);
          log = [SolveCall (xT_dot_x x) (eye k)] in
      case np_linalg_solve L (xT_dot_x x) (eye k) of
        Inl e \<Rightarrow> (log, Inl e)
      | Inr Z \<Rightarrow>
     (case align (df_index x) y of
        Inl e \<Rightarrow> (log, Inl e)
      | Inr yv \<Rightarrow>
     (let beta = mat_vec Z (xT_dot x yv);
          eps = map2 (-) yv (x_dot x beta);
          shat = dot eps eps / Fin (real_of_int (int n - int k));
          log = log @ [SolveCall (xT_dot_x x) (eye k)] in
      case np_linalg_solve L (xT_dot_x x) (eye k) of
        Inl e \<Rightarrow> (log, Inl e)
      | Inr Z2 \<Rightarrow>
     (let covar = scale shat Z2;
          var = diag covar;
          serror = map fsqrt var;
          tstat = map (\<lambda>i. snd i / serror ! fst i) (enumerate 0 beta);
          pval = map (\<lambda>t. stat_t_sf L t (int n - int k)) tstat
      in (log, Inr (fill_results (column_names x) (ols_entry beta serror tstat pval)))))))"

section \<open>Logistic regression\<close>

text \<open>
  The objective and its gradient loop over \<open>range(len(y))\<close> and read row \<open>i\<close> of
  \<open>x\<close> and of \<open>y\<close> by position; \<open>x.iloc[i]\<close> raises \<open>IndexError\<close> past the last
  row of \<open>x\<close>. Both compute the probability as \<open>exp(t) / (1 + exp(t))\<close>, while
  \<open>logistic_function\<close> computes it as \<open>1 / (1 + exp(-t))\<close>.
\<close>

definition prob :: "frame \<Rightarrow> fl list \<Rightarrow> nat \<Rightarrow> fl" where
  "prob x beta i =
     (let linear_comb = dot (iloc x i) beta in fexp linear_comb / (Fin 1 + fexp linear_comb))"

definition log_likelihood :: "frame \<Rightarrow> series \<Rightarrow> fl list \<Rightarrow> error + fl" where
  "log_likelihood x y beta =
     (if fst (shape x) < length (s_values y) then Inl IndexError
      else Inr (- foldl (\<lambda>tll i.
                  let yi = s_values y ! i; p = prob x beta i
                  in tll + (yi * flog p + (Fin 1 - yi) * flog (Fin 1 - p)))
                (Fin 0) [0..<length (s_values y)]))"

definition gradient :: "frame \<Rightarrow> series \<Rightarrow> fl list \<Rightarrow> error + fl list" where
  "gradient x y beta =
     (if fst (shape x) < length (s_values y) then Inl IndexError
      else Inr (map uminus (foldl (\<lambda>gradient1 i.
                  let yi = s_values y ! i; p = prob x beta i
                  in map2 (+) gradient1 (map (\<lambda>a. a * (yi - p)) (iloc x i)))
                (replicate (length beta) (Fin 0)) [0..<length (s_values y)])))"

definition logistic_function :: "frame \<Rightarrow> fl list \<Rightarrow> fl list" where
  "logistic_function x beta = map (\<lambda>t. Fin 1 / (Fin 1 + fexp (- t))) (x_dot x beta)"

definition np_mean :: "fl list \<Rightarrow> fl" where
  "np_mean xs = sum_list xs / Fin (real (length xs))"

definition logit_entry :: "fl list \<Rightarrow> fl list \<Rightarrow> fl list \<Rightarrow> fl list \<Rightarrow> nat \<Rightarrow> (string \<times> fl) list" where
  "logit_entry beta se zstat pvals i =
     [(''coefficient'', beta ! i), (''standard_error'', se ! i),
      (''z_stat'', zstat ! i), (''p_value'', pvals ! i)]"

text \<open>
  \<open>logistic_regression\<close> starts the optimiser at 0.10 for every coefficient and takes the
  field \<open>x\<close> of its result, whatever the result says otherwise. The two assignments at
  the head of the source function (\<open>logtransform\<close> and a first \<open>p\<close>) are overwritten
  before they are read and cannot fail; they are left out, as are the four \<open>print\<close>
  statements.
\<close>

definition logistic_regression :: "lib \<Rightarrow> model \<Rightarrow> error + model" where
  "logistic_regression L self =
     (case self_y self of
        YFrame fy \<Rightarrow>
          (case frame_response_logit L (self_x self) fy of
             Inl e \<Rightarrow> Inl e
           | Inr r \<Rightarrow> Inr (self\<lparr>self_results := Some r\<rparr>))
      | YSeries y \<Rightarrow>
          (let x = self_x self; n = fst (shape x); k = snd (shape x);
               beta = replicate k (Fin (1 / 10)) in
           case minimize L (log_likelihood x y) beta (gradient x y) of
             Inl e \<Rightarrow> Inl e
           | Inr minim \<Rightarrow>
          (let beta = opt_x minim;
               p = logistic_function x beta;
               sigmahat2 = Fin (real n) * np_mean (map (\<lambda>q. q * (Fin 1 - q)) p) in
           case np_linalg_inv L (xT_dot_x x) of
             Inl e \<Rightarrow> Inl e
           | Inr Xi \<Rightarrow>
          (let covmatrix = scale sigmahat2 Xi;
               sigmahat = map (map fsqrt) covmatrix;
               se = diag sigmahat;
               zstat = map2 (/) beta se;
               pvals = map (\<lambda>z. Fin 2 * stat_norm_sf L (fabs z)) zstat
           in Inr (self\<lparr>self_results :=
                     Some (fill_results (column_names x) (logit_entry beta se zstat pvals))\<rparr>)))))"

section \<open>Fitting\<close>

definition fit_model :: "lib \<Rightarrow> model \<Rightarrow> error + model" where
  "fit_model L self =
     (if self_regression_type self = ''ols'' then ols_regression L self
      else if self_regression_type self = ''logit'' then logistic_regression L self
      else Inl (RuntimeError ''Wrong Regression Input''))"

section \<open>Notions used to state the properties\<close>

text \<open>A row label that the default index \<open>0 .. n-1\<close> of a Series of \<open>n\<close> values has.\<close>

definition in_range :: "nat \<Rightarrow> label \<Rightarrow> bool" where
  "in_range n l = (case l of LInt i \<Rightarrow> 0 \<le> i \<and> i < int n | LStr s \<Rightarrow> False)"

text \<open>
  The local variables of \<open>ols_regression\<close>, as functions of the solver's answer \<open>Z\<close>,
  the table \<open>x\<close> and the aligned response \<open>yv\<close>.
\<close>

definition ols_beta :: "fl list list \<Rightarrow> frame \<Rightarrow> fl list \<Rightarrow> fl list" where
  "ols_beta Z x yv = mat_vec Z (xT_dot x yv)"

definition ols_shat :: "frame \<Rightarrow> fl list \<Rightarrow> fl list \<Rightarrow> fl" where
  "ols_shat x yv beta =
     (let eps = map2 (-) yv (x_dot x beta)
      in dot eps eps / Fin (real_of_int (int (fst (shape x)) - int (snd (shape x)))))"

definition ols_serror :: "fl \<Rightarrow> fl list list \<Rightarrow> fl list" where
  "ols_serror shat Z = map fsqrt (diag (scale shat Z))"

definition ols_tstat :: "fl list \<Rightarrow> fl list \<Rightarrow> fl list" where
  "ols_tstat beta serror = map (\<lambda>i. snd i / serror ! fst i) (enumerate 0 beta)"

text \<open>
  The quantities of the logistic post-fit inference in the words of the specification:
  the logistic function, the fitted probability of row \<open>i\<close>, and the dispersion
  \<open>n\<close> times the mean of \<open>p (1 - p)\<close> over the rows.
\<close>

definition sigmoid :: "fl \<Rightarrow> fl" where
  "sigmoid t = Fin 1 / (Fin 1 + fexp (- t))"

definition fitted_prob :: "frame \<Rightarrow> fl list \<Rightarrow> nat \<Rightarrow> fl" where
  "fitted_prob x beta i = sigmoid (dot (iloc x i) beta)"

definition dispersion :: "frame \<Rightarrow> fl list \<Rightarrow> fl" where
  "dispersion x beta =
     Fin (real (fst (shape x)))
       * (sum_list (map (\<lambda>i. fitted_prob x beta i * (Fin 1 - fitted_prob x beta i))
                     [0..<fst (shape x)])
          / Fin (real (fst (shape x))))"

text \<open>A negative number under a square root.\<close>

definition negative :: "fl \<Rightarrow> bool" where
  "negative v = (case v of Fin a \<Rightarrow> a < 0 | PInf \<Rightarrow> False | NInf \<Rightarrow> True | NaN \<Rightarrow> False)"

text \<open>
  A library for the examples: its solver and its inverse answer the matrix \<open>Z\<close>, its
  minimiser answers \<open>r\<close>. Its tail functions are given at the points where the upper
  tail of a distribution symmetric about 0 is known without computing an integral (one half
  at 0, nothing above infinity, everything above minus infinity), which are the only points
  the examples reach; the tail of Student's t needs a positive number of degrees of freedom.
\<close>

definition known_tail :: "fl \<Rightarrow> fl" where
  "known_tail t =
     (case t of Fin a \<Rightarrow> if a = 0 then Fin (1 / 2) else NaN
      | PInf \<Rightarrow> Fin 0 | NInf \<Rightarrow> Fin 1 | NaN \<Rightarrow> NaN)"

definition lib_answering :: "fl list list \<Rightarrow> opt_result \<Rightarrow> lib" where
  "lib_answering Z r =
     \<lparr>np_linalg_solve = (\<lambda>A B. Inr Z), np_linalg_inv = (\<lambda>A. Inr Z),
      stat_t_sf = (\<lambda>t df. if 0 < df then known_tail t else NaN),
      stat_norm_sf = known_tail,
      minimize = (\<lambda>f x0 jac. Inr r),
      frame_response_ols = (\<lambda>x y. Inl ValueError),
      frame_response_logit = (\<lambda>x y. Inl ValueError)\<rparr>"

text \<open>
  The example data: one feature \<open>x = 1, 2, 3\<close> and the response \<open>y = 2, 4, 6\<close>, no
  intercept. Here \<open>x.T.dot(x)\<close> is the one-by-one matrix 14, whose inverse is 1/14.
\<close>

definition scenario_x :: frame where
  "scenario_x =
     \<lparr>df_index = [LInt 0, LInt 1, LInt 2], df_columns = [(''x'', [Fin 1, Fin 2, Fin 3])]\<rparr>"

definition scenario_y :: series where
  "scenario_y = \<lparr>s_index = [LInt 0, LInt 1, LInt 2], s_values = [Fin 2, Fin 4, Fin 6]\<rparr>"

definition scenario_model :: "string \<Rightarrow> model" where
  "scenario_model t =
     \<lparr>self_x = scenario_x, self_y = YSeries scenario_y, self_create_intercept = False,
      self_regression_type = t, self_results = None\<rparr>"

text \<open>The same feature with a binary response, for the logistic fit.\<close>

definition binary_y :: series where
  "binary_y = \<lparr>s_index = [LInt 0, LInt 1, LInt 2], s_values = [Fin 0, Fin 1, Fin 1]\<rparr>"

definition binary_model :: model where
  "binary_model =
     \<lparr>self_x = scenario_x, self_y = YSeries binary_y, self_create_intercept = False,
      self_regression_type = ''logit'', self_results = None\<rparr>"

text \<open>
  A table of four rows with two columns of the same name \<open>a\<close>, and the design matrix
  that the constructor makes of it. The columns and the intercept are orthogonal:
  \<open>x.T.dot(x)\<close> is diagonal with the entries 2, 2 and 4.
\<close>

definition twin_x :: frame where
  "twin_x =
     \<lparr>df_index = [LInt 0, LInt 1, LInt 2, LInt 3],
      df_columns = [(''a'', [Fin 1, Fin (- 1), Fin 0, Fin 0]),
                    (''a'', [Fin 0, Fin 0, Fin 1, Fin (- 1)])]\<rparr>"

definition twin_y :: series where
  "twin_y = \<lparr>s_index = [LInt 0, LInt 1, LInt 2, LInt 3], s_values = [Fin 3, Fin 1, Fin 4, Fin 0]\<rparr>"

definition twin_design :: frame where
  "twin_design =
     \<lparr>df_index = [LInt 0, LInt 1, LInt 2, LInt 3],
      df_columns = [(''a'', [Fin 1, Fin (- 1), Fin 0, Fin 0]),
                    (''a'', [Fin 0, Fin 0, Fin 1, Fin (- 1)]),
                    (''intercept'', [Fin 1, Fin 1, Fin 1, Fin 1])]\<rparr>"

definition twin_model :: model where
  "twin_model =
     \<lparr>self_x = twin_design, self_y = YSeries twin_y, self_create_intercept = True,
      self_regression_type = ''ols'', self_results = None\<rparr>"

definition twin_lib :: lib where
  "twin_lib =
     lib_answering [[Fin (1 / 2), Fin 0, Fin 0], [Fin 0, Fin (1 / 2), Fin 0],
                    [Fin 0, Fin 0, Fin (1 / 4)]]
       \<lparr>opt_x = [Fin 0, Fin 0, Fin 0], opt_success = True\<rparr>"

definition scenario_lib :: lib where
  "scenario_lib = lib_answering [[Fin (1 / 14)]] \<lparr>opt_x = [Fin 0], opt_success = True\<rparr>"

section \<open>Lemmas on dictionaries and indexes\<close>

lemma setitem_fresh: "k \<notin> fst ` set d \<Longrightarrow> setitem d k v = d @ [(k, v)]"
  by (induction d) auto

lemma setitem_keys: "set (map fst (setitem d k v)) = insert k (set (map fst d))"
  by (induction d) auto

lemma fill_loop_distinct:
  "distinct names \<Longrightarrow> set names \<inter> fst ` set d = {} \<Longrightarrow>
   foldl (\<lambda>d i. setitem d (snd i) (entry (fst i))) d (enumerate n names)
     = d @ map (\<lambda>i. (snd i, entry (fst i))) (enumerate n names)"
proof (induction names arbitrary: d n)
  case Nil
  then show ?case by simp
next
  case (Cons a names)
  have fresh: "a \<notin> fst ` set d" using Cons.prems(2) by auto
  have disj: "set names \<inter> fst ` set (d @ [(a, entry n)]) = {}"
    using Cons.prems by auto
  show ?case
    using Cons.IH [OF _ disj, of "Suc n"] Cons.prems(1)
    by (simp add: setitem_fresh [OF fresh])
qed

lemma fill_results_distinct:
  assumes "distinct names"
  shows "fill_results names entry = map (\<lambda>i. (names ! i, entry i)) [0..<length names]"
proof -
  have "fill_results names entry = map (\<lambda>i. (snd i, entry (fst i))) (enumerate 0 names)"
    unfolding fill_results_def using fill_loop_distinct [OF assms, of "[]" entry 0] by simp
  also have "\<dots> = map (\<lambda>i. (names ! i, entry i)) [0..<length names]"
    by (rule nth_equalityI) (simp_all add: nth_enumerate_eq)
  finally show ?thesis .
qed

lemma fill_results_keys: "distinct names \<Longrightarrow> map fst (fill_results names entry) = names"
  by (simp add: fill_results_distinct o_def map_nth)

lemma fill_results_lookup:
  assumes "distinct names" "j < length names"
  shows "map_of (fill_results names entry) (names ! j) = Some (entry j)"
proof -
  have d: "distinct (map fst (fill_results names entry))"
    using assms(1) by (simp add: fill_results_keys)
  have "(names ! j, entry j) \<in> set (fill_results names entry)"
    using assms by (auto simp: fill_results_distinct)
  then show ?thesis using d by simp
qed

lemma map_of_default_index:
  "map_of (zip (map (\<lambda>i. LInt (int i)) [0..<n]) (replicate n v)) l
     = (if in_range n l then Some v else None)"
proof (cases "in_range n l")
  case True
  then obtain i where l: "l = LInt (int i)" and i: "i < n"
    by (auto simp: in_range_def split: label.splits intro: that [of "nat _"])
  have "(l, v) \<in> set (zip (map (\<lambda>i. LInt (int i)) [0..<n]) (replicate n v))"
    unfolding set_zip using i l by (auto intro!: exI [of _ i])
  moreover have "distinct (map fst (zip (map (\<lambda>i. LInt (int i)) [0..<n]) (replicate n v)))"
    by (simp add: distinct_map inj_on_def)
  ultimately show ?thesis using True by simp
next
  case False
  have "l \<notin> fst ` set (zip (map (\<lambda>i. LInt (int i)) [0..<n]) (replicate n v))"
  proof
    assume "l \<in> fst ` set (zip (map (\<lambda>i. LInt (int i)) [0..<n]) (replicate n v))"
    then have "l \<in> set (map (\<lambda>i. LInt (int i)) [0..<n])"
      by (auto dest: set_zip_leftD)
    then show False using False by (auto simp: in_range_def)
  qed
  then show ?thesis using False by (simp add: map_of_eq_None_iff)
qed

lemma reindex_ones:
  "reindex (pd_Series (replicate n (Fin 1))) ix
     = map (\<lambda>l. if in_range n l then Fin 1 else NaN) ix"
  by (simp add: reindex_def pd_Series_def map_of_default_index)

lemma align_length_mismatch:
  assumes "length (s_index s) \<noteq> length ix"
  shows "align ix s = Inl ValueError"
proof -
  have "s_index s \<noteq> ix" using assms by auto
  moreover have "\<not> (distinct ix \<and> distinct (s_index s) \<and> set ix = set (s_index s))"
    using assms by (metis distinct_card)
  ultimately show ?thesis by (simp add: align_def)
qed

section \<open>Construction\<close>

lemma ols_regression_misaligned:
  assumes "self_y m = YSeries y" "length (s_index y) \<noteq> length (df_index (self_x m))"
  shows "ols_regression L m =
           (case np_linalg_solve L (xT_dot_x (self_x m)) (eye (snd (shape (self_x m)))) of
              Inl e \<Rightarrow> Inl e | Inr Z \<Rightarrow> Inl ValueError)"
  using assms by (simp add: ols_regression_def Let_def align_length_mismatch split: sum.splits)

text \<open>
  Claim C5, as amended. The constructor never compares the row counts of \<open>x\<close> and
  \<open>y\<close>: for every DataFrame \<open>x\<close>, every Series \<open>y\<close> and either value of the
  intercept flag it returns the model, with \<open>y\<close> stored as given. When the row counts
  differ, the mismatch shows only when the OLS model is fitted: once the solver has
  answered, the alignment of \<open>y\<close> to the rows of \<open>x\<close> raises \<open>ValueError\<close>.
\<close>

theorem init_no_row_count_check:
  "\<exists>m. init (PyFrame fx) (PySeries sy) (PyBool b) (PyStr ''ols'') = Inr m
       \<and> self_x m = (if b then assign fx ''intercept''
                                 (pd_Series (replicate (length (df_index fx)) (Fin 1)))
                      else fx)
       \<and> self_y m = YSeries sy \<and> self_regression_type m = ''ols''
       \<and> (length (s_index sy) \<noteq> length (df_index fx) \<longrightarrow>
            fit_model L m =
              (case np_linalg_solve L (xT_dot_x (self_x m)) (eye (snd (shape (self_x m)))) of
                 Inl e \<Rightarrow> Inl e | Inr Z \<Rightarrow> Inl ValueError))"
proof -
  let ?x = "if b then assign fx ''intercept'' (pd_Series (replicate (length (df_index fx)) (Fin 1)))
            else fx"
  let ?m = "\<lparr>self_x = ?x, self_y = YSeries sy, self_create_intercept = b,
             self_regression_type = ''ols'', self_results = None\<rparr>"
  have i: "init (PyFrame fx) (PySeries sy) (PyBool b) (PyStr ''ols'') = Inr ?m"
    by (simp add: init_def add_intercept_def shape_def)
  have ix: "df_index ?x = df_index fx"
    by (simp add: assign_def Let_def)
  have f: "length (s_index sy) \<noteq> length (df_index fx) \<longrightarrow>
            fit_model L ?m =
              (case np_linalg_solve L (xT_dot_x (self_x ?m)) (eye (snd (shape (self_x ?m)))) of
                 Inl e \<Rightarrow> Inl e | Inr Z \<Rightarrow> Inl ValueError)"
  proof
    assume ne: "length (s_index sy) \<noteq> length (df_index fx)"
    have "length (s_index sy) \<noteq> length (df_index (self_x ?m))"
      using ne ix by simp
    from ols_regression_misaligned [OF _ this, of L]
    show "fit_model L ?m =
              (case np_linalg_solve L (xT_dot_x (self_x ?m)) (eye (snd (shape (self_x ?m)))) of
                 Inl e \<Rightarrow> Inl e | Inr Z \<Rightarrow> Inl ValueError)"
      by (simp add: fit_model_def)
  qed
  show ?thesis
    by (rule exI [of _ ?m]) (use i f in simp)
qed

text \<open>
  The theorem at a table of two rows and a response of three, with the intercept
  switched off: the model is constructed, and fitting it raises \<open>ValueError\<close>.
\<close>

theorem init_no_row_count_check_witness:
  "length (s_index \<lparr>s_index = [LInt 0, LInt 1, LInt 2], s_values = [Fin 2, Fin 4, Fin 6]\<rparr>)
     \<noteq> length (df_index \<lparr>df_index = [LInt 0, LInt 1], df_columns = [(''x'', [Fin 1, Fin 2])]\<rparr>)
   \<and> (\<exists>m. init (PyFrame \<lparr>df_index = [LInt 0, LInt 1], df_columns = [(''x'', [Fin 1, Fin 2])]\<rparr>)
          (PySeries \<lparr>s_index = [LInt 0, LInt 1, LInt 2], s_values = [Fin 2, Fin 4, Fin 6]\<rparr>)
          (PyBool False) (PyStr ''ols'') = Inr m
        \<and> fit_model (lib_answering [[Fin (1 / 5)]] \<lparr>opt_x = [], opt_success = True\<rparr>) m
            = Inl ValueError)"
  using init_no_row_count_check
    [of "\<lparr>df_index = [LInt 0, LInt 1], df_columns = [(''x'', [Fin 1, Fin 2])]\<rparr>"
        "\<lparr>s_index = [LInt 0, LInt 1, LInt 2], s_values = [Fin 2, Fin 4, Fin 6]\<rparr>"
        False
        "lib_answering [[Fin (1 / 5)]] \<lparr>opt_x = [], opt_success = True\<rparr>"]
  by (auto simp: lib_answering_def)

text \<open>
  Claim C5 as stated fails: a table of two rows and a response of three rows are
  accepted by the constructor.
\<close>

theorem init_row_counts_counterexample:
  "length (df_index \<lparr>df_index = [LInt 0, LInt 1], df_columns = [(''x'', [Fin 1, Fin 2])]\<rparr>)
     \<noteq> length (s_index \<lparr>s_index = [LInt 0, LInt 1, LInt 2], s_values = [Fin 2, Fin 4, Fin 6]\<rparr>)
   \<and> init (PyFrame \<lparr>df_index = [LInt 0, LInt 1], df_columns = [(''x'', [Fin 1, Fin 2])]\<rparr>)
          (PySeries \<lparr>s_index = [LInt 0, LInt 1, LInt 2], s_values = [Fin 2, Fin 4, Fin 6]\<rparr>)
          (PyBool False) (PyStr ''ols'')
      = Inr \<lparr>self_x = \<lparr>df_index = [LInt 0, LInt 1], df_columns = [(''x'', [Fin 1, Fin 2])]\<rparr>,
             self_y = YSeries \<lparr>s_index = [LInt 0, LInt 1, LInt 2], s_values = [Fin 2, Fin 4, Fin 6]\<rparr>,
             self_create_intercept = False, self_regression_type = ''ols'',
             self_results = None\<rparr>"
  by (simp add: init_def)

section \<open>The intercept column\<close>

lemma fl_NaN_right [simp]: "u + NaN = NaN" "u * NaN = NaN" "u / NaN = NaN" "u - NaN = NaN"
  by (cases u; simp add: minus_fl_def)+

lemma fl_NaN_left [simp]: "NaN - u = NaN"
  by (simp add: minus_fl_def)

lemma assign_index: "df_index (assign f name s) = df_index f"
  by (simp add: assign_def Let_def)

lemma assign_lookup:
  "map_of (df_columns (assign f name s)) name = Some (reindex s (df_index f))"
proof (cases "name \<in> set (column_names f)")
  case True
  have "map_of (map (\<lambda>c. if fst c = name then (name, v) else c) cs) name = Some v"
    if "name \<in> fst ` set cs" for cs :: "(string \<times> fl list) list" and v
    using that by (induction cs) auto
  then show ?thesis using True by (simp add: assign_def Let_def column_names_def)
next
  case False
  then have "map_of (df_columns f) name = None"
    by (simp add: column_names_def map_of_eq_None_iff)
  then show ?thesis using False by (simp add: assign_def Let_def map_add_def)
qed

lemma assign_new:
  "name \<notin> set (column_names f) \<Longrightarrow>
   df_columns (assign f name s) = df_columns f @ [(name, reindex s (df_index f))]"
  by (simp add: assign_def Let_def)

lemma sum_list_NaN: "NaN \<in> set xs \<Longrightarrow> sum_list xs = NaN"
proof (induction xs)
  case Nil
  then show ?case by simp
next
  case (Cons a xs)
  show ?case
  proof (cases "a = NaN")
    case True
    then show ?thesis by simp
  next
    case False
    then have "sum_list xs = NaN" using Cons by simp
    then show ?thesis by simp
  qed
qed

lemma dot_self_NaN: "NaN \<in> set vs \<Longrightarrow> dot vs vs = NaN"
proof -
  assume "NaN \<in> set vs"
  then have "NaN * NaN \<in> set (map2 (*) vs vs)"
    by (force simp: set_zip in_set_conv_nth)
  then show ?thesis unfolding dot_def by (simp add: sum_list_NaN)
qed

lemma ones_iff:
  "map (\<lambda>l. if in_range n l then Fin 1 else NaN) ix = replicate (length ix) (Fin 1)
     \<longleftrightarrow> list_all (in_range n) ix"
  by (induction ix) auto

lemma init_intercept:
  assumes "t = ''ols'' \<or> t = ''logit''"
  shows "init (PyFrame fx) (PySeries sy) (PyBool True) (PyStr t) =
     Inr \<lparr>self_x = assign fx ''intercept'' (pd_Series (replicate (length (df_index fx)) (Fin 1))),
          self_y = YSeries sy, self_create_intercept = True,
          self_regression_type = t, self_results = None\<rparr>"
  using assms by (auto simp: init_def add_intercept_def shape_def)

text \<open>
  Claim C10, as amended. The intercept column is a Series of \<open>n\<close> ones with the default
  index, aligned to the row index of \<open>x\<close>: a row whose label is an integer in
  \<open>0 .. n-1\<close> gets 1, every other row gets NaN. So the column is all ones exactly when
  every row label lies in \<open>0 .. n-1\<close>, whether or not the index is \<open>0 .. n-1\<close>
  itself. With a label outside that range the constructor still succeeds, and NaN is among
  the entries of the matrix \<open>x.T.dot(x)\<close> that the fit hands to the solver.
\<close>

theorem intercept_column_follows_labels:
  "\<exists>m. init (PyFrame fx) (PySeries sy) (PyBool True) (PyStr ''ols'') = Inr m
     \<and> map_of (df_columns (self_x m)) ''intercept''
         = Some (map (\<lambda>l. if in_range (length (df_index fx)) l then Fin 1 else NaN) (df_index fx))
     \<and> (map_of (df_columns (self_x m)) ''intercept''
           = Some (replicate (length (df_index fx)) (Fin 1))
         \<longleftrightarrow> list_all (in_range (length (df_index fx))) (df_index fx))
     \<and> (\<not> list_all (in_range (length (df_index fx))) (df_index fx)
         \<longrightarrow> NaN \<in> set (concat (xT_dot_x (self_x m))))"
proof -
  let ?n = "length (df_index fx)"
  let ?vs = "map (\<lambda>l. if in_range ?n l then Fin 1 else NaN) (df_index fx)"
  let ?x = "assign fx ''intercept'' (pd_Series (replicate ?n (Fin 1)))"
  let ?m = "\<lparr>self_x = ?x, self_y = YSeries sy, self_create_intercept = True,
             self_regression_type = ''ols'', self_results = None\<rparr>"
  have i: "init (PyFrame fx) (PySeries sy) (PyBool True) (PyStr ''ols'') = Inr ?m"
    by (simp add: init_intercept)
  have look: "map_of (df_columns ?x) ''intercept'' = Some ?vs"
    by (simp add: assign_lookup reindex_ones)
  have nan: "NaN \<in> set (concat (xT_dot_x ?x))" if "\<not> list_all (in_range ?n) (df_index fx)"
  proof -
    have "NaN \<in> set ?vs" using that by (auto simp: list_all_iff)
    then have d: "dot ?vs ?vs = NaN" by (rule dot_self_NaN)
    have c: "(''intercept'', ?vs) \<in> set (df_columns ?x)"
      using look by (rule map_of_SomeD)
    have "dot ?vs ?vs \<in> set (concat (xT_dot_x ?x))"
      unfolding xT_dot_x_def set_concat using c by force
    then show ?thesis using d by simp
  qed
  show ?thesis
    by (rule exI [of _ ?m]) (use i look nan ones_iff [of ?n "df_index fx"] in auto)
qed

text \<open>
  The theorem at a table of two rows labelled 1 and 2 (the rows left of a table of three
  after the first is dropped): label 2 is outside \<open>0 .. 1\<close>, the intercept of that row
  is NaN, and NaN reaches \<open>x.T.dot(x)\<close>.
\<close>

theorem intercept_column_follows_labels_witness:
  "\<not> list_all (in_range (length (df_index
        \<lparr>df_index = [LInt 1, LInt 2], df_columns = [(''x'', [Fin 2, Fin 3])]\<rparr>)))
      (df_index \<lparr>df_index = [LInt 1, LInt 2], df_columns = [(''x'', [Fin 2, Fin 3])]\<rparr>)
   \<and> (\<exists>m. init (PyFrame \<lparr>df_index = [LInt 1, LInt 2], df_columns = [(''x'', [Fin 2, Fin 3])]\<rparr>)
              (PySeries \<lparr>s_index = [LInt 1, LInt 2], s_values = [Fin 4, Fin 6]\<rparr>)
              (PyBool True) (PyStr ''ols'') = Inr m
         \<and> map_of (df_columns (self_x m)) ''intercept'' = Some [Fin 1, NaN]
         \<and> NaN \<in> set (concat (xT_dot_x (self_x m))))"
  using intercept_column_follows_labels
    [of "\<lparr>df_index = [LInt 1, LInt 2], df_columns = [(''x'', [Fin 2, Fin 3])]\<rparr>"
        "\<lparr>s_index = [LInt 1, LInt 2], s_values = [Fin 4, Fin 6]\<rparr>"]
  by (auto simp: in_range_def)

text \<open>
  Claim C10 as stated fails in its first half: with the row labels \<open>0, 0\<close>, and with
  the row labels \<open>1, 0\<close>, the index is not \<open>0, 1\<close> and the intercept column is all
  ones.
\<close>

theorem intercept_all_ones_counterexample:
  "[LInt 0, LInt 0] \<noteq> map (\<lambda>i. LInt (int i)) [0..<2]
   \<and> init (PyFrame \<lparr>df_index = [LInt 0, LInt 0], df_columns = [(''x'', [Fin 2, Fin 3])]\<rparr>)
          (PySeries \<lparr>s_index = [LInt 0, LInt 0], s_values = [Fin 4, Fin 6]\<rparr>)
          (PyBool True) (PyStr ''ols'')
      = Inr \<lparr>self_x = \<lparr>df_index = [LInt 0, LInt 0],
                        df_columns = [(''x'', [Fin 2, Fin 3]), (''intercept'', [Fin 1, Fin 1])]\<rparr>,
             self_y = YSeries \<lparr>s_index = [LInt 0, LInt 0], s_values = [Fin 4, Fin 6]\<rparr>,
             self_create_intercept = True, self_regression_type = ''ols'',
             self_results = None\<rparr>
   \<and> [LInt 1, LInt 0] \<noteq> map (\<lambda>i. LInt (int i)) [0..<2]
   \<and> init (PyFrame \<lparr>df_index = [LInt 1, LInt 0], df_columns = [(''x'', [Fin 2, Fin 3])]\<rparr>)
          (PySeries \<lparr>s_index = [LInt 1, LInt 0], s_values = [Fin 4, Fin 6]\<rparr>)
          (PyBool True) (PyStr ''ols'')
      = Inr \<lparr>self_x = \<lparr>df_index = [LInt 1, LInt 0],
                        df_columns = [(''x'', [Fin 2, Fin 3]), (''intercept'', [Fin 1, Fin 1])]\<rparr>,
             self_y = YSeries \<lparr>s_index = [LInt 1, LInt 0], s_values = [Fin 4, Fin 6]\<rparr>,
             self_create_intercept = True, self_regression_type = ''ols'',
             self_results = None\<rparr>"
  by (simp add: init_intercept assign_def Let_def column_names_def reindex_def pd_Series_def
      upt_rec)

section \<open>Ordinary least squares: the results\<close>

lemma ols_regression_Series:
  assumes "self_y m = YSeries y"
    and "np_linalg_solve L (xT_dot_x (self_x m)) (eye (snd (shape (self_x m)))) = Inr Z"
    and "align (df_index (self_x m)) y = Inr yv"
  shows "ols_regression L m =
     Inr (m\<lparr>self_results := Some (fill_results (column_names (self_x m))
        (ols_entry (ols_beta Z (self_x m) yv)
           (ols_serror (ols_shat (self_x m) yv (ols_beta Z (self_x m) yv)) Z)
           (ols_tstat (ols_beta Z (self_x m) yv)
              (ols_serror (ols_shat (self_x m) yv (ols_beta Z (self_x m) yv)) Z))
           (map (\<lambda>t. stat_t_sf L t (int (fst (shape (self_x m))) - int (snd (shape (self_x m)))))
              (ols_tstat (ols_beta Z (self_x m) yv)
                 (ols_serror (ols_shat (self_x m) yv (ols_beta Z (self_x m) yv)) Z)))))\<rparr>)"
  using assms
  by (simp add: ols_regression_def Let_def ols_beta_def ols_shat_def ols_serror_def ols_tstat_def)

lemma ols_regression_Inr_D:
  assumes "self_y m = YSeries y" "ols_regression L m = Inr m'"
  shows "\<exists>Z yv. np_linalg_solve L (xT_dot_x (self_x m)) (eye (snd (shape (self_x m)))) = Inr Z
           \<and> align (df_index (self_x m)) y = Inr yv"
  using assms by (auto simp: ols_regression_def Let_def split: sum.splits)

lemma ols_tstat_nth:
  "j < length beta \<Longrightarrow> ols_tstat beta serror ! j = beta ! j / serror ! j"
  by (simp add: ols_tstat_def nth_enumerate_eq)

lemma length_ols_tstat: "length (ols_tstat beta serror) = length beta"
  by (simp add: ols_tstat_def)

lemma length_ols_beta: "length (ols_beta Z x yv) = length Z"
  by (simp add: ols_beta_def mat_vec_def)

lemma ols_serror_nth:
  assumes "square k Z" "j < k"
  shows "ols_serror shat Z ! j = fsqrt (shat * Z ! j ! j)"
proof -
  have "j < length Z" "j < length (Z ! j)"
    using assms by (auto simp: square_def list_all_length)
  then show ?thesis by (simp add: ols_serror_def diag_def scale_def)
qed

text \<open>The fit of the example data, step by step.\<close>

lemma scenario_fields:
  "self_y (scenario_model t) = YSeries scenario_y" "self_x (scenario_model t) = scenario_x"
  "self_regression_type (scenario_model t) = t"
  by (simp_all add: scenario_model_def)

lemma scenario_shape:
  "fst (shape scenario_x) = 3" "snd (shape scenario_x) = 1" "column_names scenario_x = [''x'']"
  by (simp_all add: scenario_x_def shape_def column_names_def)

lemma scenario_solve:
  "np_linalg_solve scenario_lib (xT_dot_x (self_x (scenario_model t)))
      (eye (snd (shape (self_x (scenario_model t))))) = Inr [[Fin (1 / 14)]]"
  by (simp add: scenario_lib_def lib_answering_def)

lemma scenario_align:
  "align (df_index (self_x (scenario_model t))) scenario_y = Inr [Fin 2, Fin 4, Fin 6]"
  by (simp add: align_def scenario_model_def scenario_x_def scenario_y_def)

lemma scenario_beta: "ols_beta [[Fin (1 / 14)]] scenario_x [Fin 2, Fin 4, Fin 6] = [Fin 2]"
  by (simp add: ols_beta_def mat_vec_def xT_dot_def dot_def scenario_x_def)

lemma scenario_shat: "ols_shat scenario_x [Fin 2, Fin 4, Fin 6] [Fin 2] = Fin 0"
  by (simp add: ols_shat_def x_dot_def iloc_def dot_def scenario_x_def shape_def upt_rec
      minus_fl_def)

lemma scenario_serror: "ols_serror (Fin 0) [[Fin (1 / 14)]] = [Fin 0]"
  by (simp add: ols_serror_def diag_def scale_def)

lemma scenario_tstat: "ols_tstat [Fin 2] [Fin 0] = [PInf]"
  by (simp add: ols_tstat_def enumerate_eq_zip)

lemma scenario_pval: "stat_t_sf scenario_lib PInf 2 = Fin 0"
  by (simp add: scenario_lib_def lib_answering_def known_tail_def)

lemma scenario_fill:
  "fill_results [''x''] (ols_entry [Fin 2] [Fin 0] [PInf] [Fin 0])
     = [(''x'', [(''coefficient'', Fin 2), (''standard_error'', Fin 0),
                 (''t_stat'', PInf), (''p_value'', Fin 0)])]"
  by (simp add: fill_results_def enumerate_eq_zip ols_entry_def)

lemma scenario_ols_fit:
  "fit_model scenario_lib (scenario_model ''ols'') =
     Inr ((scenario_model ''ols'')\<lparr>self_results :=
        Some [(''x'', [(''coefficient'', Fin 2), (''standard_error'', Fin 0),
                       (''t_stat'', PInf), (''p_value'', Fin 0)])]\<rparr>)"
  using ols_regression_Series [OF scenario_fields(1) scenario_solve scenario_align, of "''ols''"]
  by (simp add: fit_model_def scenario_fields scenario_shape
      scenario_beta scenario_shat scenario_serror scenario_tstat scenario_pval scenario_fill)

text \<open>
  Claim C7. In an OLS fit, the p-value reported for a column is \<open>stat.t.sf\<close>, the upper
  tail of Student's t distribution, at the t-statistic reported for that column, with
  \<open>n - k\<close> degrees of freedom: the tail on one side, not doubled. The column names are
  distinct, so that every column has a record of its own, and the solver has answered with
  one row per column.
\<close>

theorem ols_p_value_upper_tail:
  assumes "self_regression_type m = ''ols''" and "self_y m = YSeries y"
    and "fit_model L m = Inr m'"
    and "np_linalg_solve L (xT_dot_x (self_x m)) (eye (snd (shape (self_x m)))) = Inr Z"
    and "length Z = snd (shape (self_x m))"
    and "distinct (column_names (self_x m))"
    and "j < snd (shape (self_x m))"
  shows "\<exists>r entry t. self_results m' = Some r
           \<and> map_of r (column_names (self_x m) ! j) = Some entry
           \<and> map_of entry ''t_stat'' = Some t
           \<and> map_of entry ''p_value''
                = Some (stat_t_sf L t (int (fst (shape (self_x m))) - int (snd (shape (self_x m)))))"
proof -
  have ols: "ols_regression L m = Inr m'"
    using assms(1,3) by (simp add: fit_model_def)
  obtain yv where al: "align (df_index (self_x m)) y = Inr yv"
    using ols_regression_Inr_D [OF assms(2) ols] by auto
  let ?beta = "ols_beta Z (self_x m) yv"
  let ?se = "ols_serror (ols_shat (self_x m) yv ?beta) Z"
  let ?ts = "ols_tstat ?beta ?se"
  let ?df = "int (fst (shape (self_x m))) - int (snd (shape (self_x m)))"
  let ?ps = "map (\<lambda>t. stat_t_sf L t ?df) ?ts"
  let ?r = "fill_results (column_names (self_x m)) (ols_entry ?beta ?se ?ts ?ps)"
  have m': "m' = m\<lparr>self_results := Some ?r\<rparr>"
    using ols ols_regression_Series [OF assms(2) assms(4) al] by simp
  have jn: "j < length (column_names (self_x m))"
    using assms(7) by (simp add: shape_def column_names_def)
  have look: "map_of ?r (column_names (self_x m) ! j) = Some (ols_entry ?beta ?se ?ts ?ps j)"
    using assms(6) jn by (rule fill_results_lookup)
  have jt: "j < length ?ts"
    using assms(5,7) by (simp add: length_ols_tstat length_ols_beta)
  have p: "?ps ! j = stat_t_sf L (?ts ! j) ?df"
    using jt by simp
  show ?thesis
    using m' look p by (auto simp: ols_entry_def)
qed

text \<open>
  The theorem at the example data: the fit is exact, the standard error is 0, the
  t-statistic is infinite and the p-value is the upper tail there, with 2 degrees of
  freedom.
\<close>

theorem ols_p_value_upper_tail_witness:
  "\<exists>m' r entry. fit_model scenario_lib (scenario_model ''ols'') = Inr m'
     \<and> np_linalg_solve scenario_lib (xT_dot_x (self_x (scenario_model ''ols'')))
          (eye (snd (shape (self_x (scenario_model ''ols''))))) = Inr [[Fin (1 / 14)]]
     \<and> distinct (column_names scenario_x) \<and> 0 < snd (shape scenario_x)
     \<and> self_results m' = Some r \<and> map_of r ''x'' = Some entry
     \<and> map_of entry ''t_stat'' = Some PInf
     \<and> map_of entry ''p_value'' = Some (stat_t_sf scenario_lib PInf 2)"
proof -
  from ols_p_value_upper_tail
    [OF scenario_fields(3) scenario_fields(1) scenario_ols_fit scenario_solve, of 0]
  obtain r entry t where "self_results ((scenario_model ''ols'')\<lparr>self_results :=
        Some [(''x'', [(''coefficient'', Fin 2), (''standard_error'', Fin 0),
                       (''t_stat'', PInf), (''p_value'', Fin 0)])]\<rparr>) = Some r"
    and "map_of r ''x'' = Some entry" and "map_of entry ''t_stat'' = Some t"
    and "map_of entry ''p_value'' = Some (stat_t_sf scenario_lib t 2)"
    by (auto simp: scenario_fields scenario_shape)
  then have "self_results ((scenario_model ''ols'')\<lparr>self_results :=
        Some [(''x'', [(''coefficient'', Fin 2), (''standard_error'', Fin 0),
                       (''t_stat'', PInf), (''p_value'', Fin 0)])]\<rparr>) = Some r
      \<and> map_of r ''x'' = Some entry \<and> map_of entry ''t_stat'' = Some PInf
      \<and> map_of entry ''p_value'' = Some (stat_t_sf scenario_lib PInf 2)"
    by auto
  then show ?thesis
    using scenario_ols_fit scenario_solve scenario_shape by auto
qed

section \<open>Fitting again\<close>

lemma ols_regression_refit:
  "ols_regression L m = Inr m' \<Longrightarrow> ols_regression L (m\<lparr>self_results := r\<rparr>) = Inr m'"
  by (auto simp: ols_regression_def Let_def split: sum.splits yval.splits)

lemma logistic_regression_refit:
  "logistic_regression L m = Inr m' \<Longrightarrow>
   logistic_regression L (m\<lparr>self_results := r\<rparr>) = Inr m'"
  by (auto simp: logistic_regression_def Let_def split: sum.splits yval.splits)

lemma fit_model_refit:
  "fit_model L m = Inr m' \<Longrightarrow> fit_model L (m\<lparr>self_results := r\<rparr>) = Inr m'"
  by (auto simp: fit_model_def ols_regression_refit logistic_regression_refit split: if_splits)

lemma fit_model_stores:
  "fit_model L m = Inr m' \<Longrightarrow> \<exists>res. m' = m\<lparr>self_results := Some res\<rparr>"
  by (auto simp: fit_model_def ols_regression_def logistic_regression_def Let_def
      split: if_splits sum.splits yval.splits)

text \<open>
  Claim C9. When fitting an OLS model succeeds, fitting the fitted model again gives the
  same model with the same results; and whatever results mapping the model held before the
  call (none, or one with other keys), the call gives that same outcome: the mapping is
  built afresh and replaces the old one, nothing of the old one is kept.
\<close>

theorem fit_model_twice:
  assumes "self_regression_type m = ''ols''" and "fit_model L m = Inr m1"
  shows "fit_model L m1 = Inr m1 \<and> fit_model L (m\<lparr>self_results := r\<rparr>) = Inr m1"
proof -
  obtain res where "m1 = m\<lparr>self_results := Some res\<rparr>"
    using fit_model_stores [OF assms(2)] by auto
  then have "fit_model L m1 = Inr m1"
    using fit_model_refit [OF assms(2), of "Some res"] by simp
  then show ?thesis
    using fit_model_refit [OF assms(2)] by simp
qed

text \<open>
  The theorem at the example data, refitted once as it is and once with a stale mapping
  that has a key \<open>old\<close>.
\<close>

theorem fit_model_twice_witness:
  "\<exists>m1. fit_model scenario_lib (scenario_model ''ols'') = Inr m1
     \<and> self_regression_type (scenario_model ''ols'') = ''ols''
     \<and> fit_model scenario_lib m1 = Inr m1
     \<and> fit_model scenario_lib ((scenario_model ''ols'')\<lparr>self_results := Some [(''old'', [])]\<rparr>)
          = Inr m1
     \<and> self_results m1 =
          Some [(''x'', [(''coefficient'', Fin 2), (''standard_error'', Fin 0),
                         (''t_stat'', PInf), (''p_value'', Fin 0)])]"
  using fit_model_twice [OF scenario_fields(3) scenario_ols_fit, of "Some [(''old'', [])]"]
    scenario_ols_fit
  by (simp add: scenario_fields)

section \<open>Degenerate fits\<close>

lemma not_fin_div_zero: "\<not> is_fin (u / Fin 0)"
  by (cases u) auto

lemma not_fin_times: "\<not> is_fin u \<Longrightarrow> \<not> is_fin (u * v)"
  by (cases u; cases v) auto

lemma not_fin_fsqrt: "\<not> is_fin u \<Longrightarrow> \<not> is_fin (fsqrt u)"
  by (cases u) auto

lemma ols_shat_square: "fst (shape x) = snd (shape x) \<Longrightarrow> \<not> is_fin (ols_shat x yv beta)"
  by (simp add: ols_shat_def Let_def not_fin_div_zero)

text \<open>
  Claim C3, as amended. The OLS fit has no check of \<open>n\<close> against \<open>k\<close>: whatever the
  two are, it succeeds whenever the solver answers and \<open>y\<close> aligns with the rows of
  \<open>x\<close>. With \<open>n = k\<close> the variance estimate is a division by \<open>n - k = 0\<close>, which
  numpy evaluates to NaN or an infinity, so that every reported standard error is NaN or
  infinite: never a finite number, and so never zero.
\<close>

theorem ols_no_degeneracy_check:
  assumes "self_regression_type m = ''ols''" and "self_y m = YSeries y"
    and "np_linalg_solve L (xT_dot_x (self_x m)) (eye (snd (shape (self_x m)))) = Inr Z"
    and "align (df_index (self_x m)) y = Inr yv"
  shows "\<exists>m' r. fit_model L m = Inr m' \<and> self_results m' = Some r
           \<and> (fst (shape (self_x m)) = snd (shape (self_x m))
                \<and> square (snd (shape (self_x m))) Z \<and> distinct (column_names (self_x m))
              \<longrightarrow> (\<forall>j < snd (shape (self_x m)). \<exists>entry se.
                     map_of r (column_names (self_x m) ! j) = Some entry
                     \<and> map_of entry ''standard_error'' = Some se \<and> \<not> is_fin se))"
proof -
  let ?x = "self_x m"
  let ?k = "snd (shape ?x)"
  let ?beta = "ols_beta Z ?x yv"
  let ?shat = "ols_shat ?x yv ?beta"
  let ?se = "ols_serror ?shat Z"
  let ?ts = "ols_tstat ?beta ?se"
  let ?ps = "map (\<lambda>t. stat_t_sf L t (int (fst (shape ?x)) - int ?k)) ?ts"
  let ?r = "fill_results (column_names ?x) (ols_entry ?beta ?se ?ts ?ps)"
  have fit: "fit_model L m = Inr (m\<lparr>self_results := Some ?r\<rparr>)"
    using assms(1) ols_regression_Series [OF assms(2,3,4)] by (simp add: fit_model_def)
  have se: "\<exists>entry se. map_of ?r (column_names ?x ! j) = Some entry
              \<and> map_of entry ''standard_error'' = Some se \<and> \<not> is_fin se"
    if nk: "fst (shape ?x) = ?k" and sq: "square ?k Z" and d: "distinct (column_names ?x)"
      and j: "j < ?k" for j
  proof -
    have jn: "j < length (column_names ?x)"
      using j by (simp add: shape_def column_names_def)
    have look: "map_of ?r (column_names ?x ! j) = Some (ols_entry ?beta ?se ?ts ?ps j)"
      using d jn by (rule fill_results_lookup)
    have "?se ! j = fsqrt (?shat * Z ! j ! j)"
      using sq j by (rule ols_serror_nth)
    then have "\<not> is_fin (?se ! j)"
      using ols_shat_square [OF nk] by (simp add: not_fin_times not_fin_fsqrt)
    then show ?thesis
      using look by (simp add: ols_entry_def)
  qed
  show ?thesis
    by (rule exI [of _ "m\<lparr>self_results := Some ?r\<rparr>"], rule exI [of _ ?r])
       (use fit se in auto)
qed

text \<open>
  The example for \<open>n = k\<close>: one observation \<open>x = 1\<close>, \<open>y = 2\<close> and one column. The
  solver answers the inverse 1 of the one-by-one matrix 1.
\<close>

lemma single_fit:
  "fit_model (lib_answering [[Fin 1]] \<lparr>opt_x = [Fin 0], opt_success = True\<rparr>)
     \<lparr>self_x = \<lparr>df_index = [LInt 0], df_columns = [(''x'', [Fin 1])]\<rparr>,
      self_y = YSeries \<lparr>s_index = [LInt 0], s_values = [Fin 2]\<rparr>,
      self_create_intercept = False, self_regression_type = ''ols'', self_results = None\<rparr>
   = Inr \<lparr>self_x = \<lparr>df_index = [LInt 0], df_columns = [(''x'', [Fin 1])]\<rparr>,
          self_y = YSeries \<lparr>s_index = [LInt 0], s_values = [Fin 2]\<rparr>,
          self_create_intercept = False, self_regression_type = ''ols'',
          self_results = Some [(''x'', [(''coefficient'', Fin 2), (''standard_error'', NaN),
                                        (''t_stat'', NaN), (''p_value'', NaN)])]\<rparr>"
proof -
  let ?x = "\<lparr>df_index = [LInt 0], df_columns = [(''x'', [Fin 1])]\<rparr>"
  have b: "ols_beta [[Fin 1]] ?x [Fin 2] = [Fin 2]"
    by (simp add: ols_beta_def mat_vec_def xT_dot_def dot_def)
  have s: "ols_shat ?x [Fin 2] [Fin 2] = NaN"
    by (simp add: ols_shat_def x_dot_def iloc_def dot_def shape_def minus_fl_def)
  have e: "ols_serror NaN [[Fin 1]] = [NaN]"
    by (simp add: ols_serror_def diag_def scale_def)
  have t: "ols_tstat [Fin 2] [NaN] = [NaN]"
    by (simp add: ols_tstat_def enumerate_eq_zip)
  have f: "fill_results [''x''] (ols_entry [Fin 2] [NaN] [NaN] [NaN])
      = [(''x'', [(''coefficient'', Fin 2), (''standard_error'', NaN),
                  (''t_stat'', NaN), (''p_value'', NaN)])]"
    by (simp add: fill_results_def enumerate_eq_zip ols_entry_def)
  show ?thesis
    using ols_regression_Series [of
        "\<lparr>self_x = ?x, self_y = YSeries \<lparr>s_index = [LInt 0], s_values = [Fin 2]\<rparr>,
          self_create_intercept = False, self_regression_type = ''ols'', self_results = None\<rparr>"
        "\<lparr>s_index = [LInt 0], s_values = [Fin 2]\<rparr>"
        "lib_answering [[Fin 1]] \<lparr>opt_x = [Fin 0], opt_success = True\<rparr>"
        "[[Fin 1]]" "[Fin 2]"]
    by (simp add: fit_model_def lib_answering_def align_def b s e t f shape_def
        column_names_def)
qed

theorem ols_no_degeneracy_check_witness:
  "fst (shape \<lparr>df_index = [LInt 0], df_columns = [(''x'', [Fin 1])]\<rparr>)
     = snd (shape \<lparr>df_index = [LInt 0], df_columns = [(''x'', [Fin 1])]\<rparr>)
   \<and> square (snd (shape \<lparr>df_index = [LInt 0], df_columns = [(''x'', [Fin 1])]\<rparr>)) [[Fin 1]]
   \<and> (\<exists>m' r entry se.
        fit_model (lib_answering [[Fin 1]] \<lparr>opt_x = [Fin 0], opt_success = True\<rparr>)
          \<lparr>self_x = \<lparr>df_index = [LInt 0], df_columns = [(''x'', [Fin 1])]\<rparr>,
           self_y = YSeries \<lparr>s_index = [LInt 0], s_values = [Fin 2]\<rparr>,
           self_create_intercept = False, self_regression_type = ''ols'',
           self_results = None\<rparr> = Inr m'
        \<and> self_results m' = Some r \<and> map_of r ''x'' = Some entry
        \<and> map_of entry ''standard_error'' = Some se \<and> \<not> is_fin se)"
  using ols_no_degeneracy_check [of
      "\<lparr>self_x = \<lparr>df_index = [LInt 0], df_columns = [(''x'', [Fin 1])]\<rparr>,
        self_y = YSeries \<lparr>s_index = [LInt 0], s_values = [Fin 2]\<rparr>,
        self_create_intercept = False, self_regression_type = ''ols'', self_results = None\<rparr>"
      "\<lparr>s_index = [LInt 0], s_values = [Fin 2]\<rparr>"
      "lib_answering [[Fin 1]] \<lparr>opt_x = [Fin 0], opt_success = True\<rparr>"
      "[[Fin 1]]" "[Fin 2]"]
  by (simp add: lib_answering_def align_def shape_def column_names_def square_def)

text \<open>
  Claim C3 as stated fails: with one observation and one column the fit raises no
  error; it stores a record whose standard error is NaN.
\<close>

theorem ols_degenerate_counterexample:
  "fst (shape \<lparr>df_index = [LInt 0], df_columns = [(''x'', [Fin 1])]\<rparr>)
     \<le> snd (shape \<lparr>df_index = [LInt 0], df_columns = [(''x'', [Fin 1])]\<rparr>)
   \<and> fit_model (lib_answering [[Fin 1]] \<lparr>opt_x = [Fin 0], opt_success = True\<rparr>)
     \<lparr>self_x = \<lparr>df_index = [LInt 0], df_columns = [(''x'', [Fin 1])]\<rparr>,
      self_y = YSeries \<lparr>s_index = [LInt 0], s_values = [Fin 2]\<rparr>,
      self_create_intercept = False, self_regression_type = ''ols'', self_results = None\<rparr>
   = Inr \<lparr>self_x = \<lparr>df_index = [LInt 0], df_columns = [(''x'', [Fin 1])]\<rparr>,
          self_y = YSeries \<lparr>s_index = [LInt 0], s_values = [Fin 2]\<rparr>,
          self_create_intercept = False, self_regression_type = ''ols'',
          self_results = Some [(''x'', [(''coefficient'', Fin 2), (''standard_error'', NaN),
                                        (''t_stat'', NaN), (''p_value'', NaN)])]\<rparr>"
  using single_fit by (simp add: shape_def)

section \<open>Logistic regression: the results\<close>

lemma logistic_function_fitted:
  "logistic_function x beta = map (fitted_prob x beta) [0..<fst (shape x)]"
  by (simp add: logistic_function_def x_dot_def fitted_prob_def sigmoid_def)

lemma sigmahat2_dispersion:
  "Fin (real (fst (shape x))) * np_mean (map (\<lambda>q. q * (Fin 1 - q)) (logistic_function x beta))
     = dispersion x beta"
  by (simp add: logistic_function_fitted np_mean_def dispersion_def o_def)

lemma logistic_regression_Series:
  assumes "self_y m = YSeries y"
    and "minimize L (log_likelihood (self_x m) y)
           (replicate (snd (shape (self_x m))) (Fin (1 / 10))) (gradient (self_x m) y) = Inr r"
    and "np_linalg_inv L (xT_dot_x (self_x m)) = Inr Xi"
  shows "logistic_regression L m =
     Inr (m\<lparr>self_results := Some (fill_results (column_names (self_x m))
        (logit_entry (opt_x r)
           (diag (map (map fsqrt) (scale (dispersion (self_x m) (opt_x r)) Xi)))
           (map2 (/) (opt_x r)
              (diag (map (map fsqrt) (scale (dispersion (self_x m) (opt_x r)) Xi))))
           (map (\<lambda>z. Fin 2 * stat_norm_sf L (fabs z))
              (map2 (/) (opt_x r)
                 (diag (map (map fsqrt) (scale (dispersion (self_x m) (opt_x r)) Xi)))))))\<rparr>)"
  using assms by (simp add: logistic_regression_def Let_def sigmahat2_dispersion)

lemma logistic_regression_Inr_D:
  assumes "self_y m = YSeries y" "logistic_regression L m = Inr m'"
  shows "\<exists>r Xi. minimize L (log_likelihood (self_x m) y)
           (replicate (snd (shape (self_x m))) (Fin (1 / 10))) (gradient (self_x m) y) = Inr r
           \<and> np_linalg_inv L (xT_dot_x (self_x m)) = Inr Xi"
  using assms by (auto simp: logistic_regression_def Let_def split: sum.splits)

lemma diag_sqrt_nth:
  assumes "square k A" "j < k"
  shows "diag (map (map fsqrt) (scale c A)) ! j = fsqrt (scale c A ! j ! j)"
    and "length (diag (map (map fsqrt) (scale c A))) = k"
proof -
  have "j < length A" "j < length (A ! j)" "length A = k"
    using assms by (auto simp: square_def list_all_length)
  then show "diag (map (map fsqrt) (scale c A)) ! j = fsqrt (scale c A ! j ! j)"
    and "length (diag (map (map fsqrt) (scale c A))) = k"
    by (simp_all add: diag_def scale_def)
qed

lemma logit_lookup:
  assumes ty: "self_regression_type m = ''logit''" and y: "self_y m = YSeries y"
    and fit: "fit_model L m = Inr m'"
    and opt: "minimize L (log_likelihood (self_x m) y)
           (replicate (snd (shape (self_x m))) (Fin (1 / 10))) (gradient (self_x m) y) = Inr r"
    and len: "length (opt_x r) = snd (shape (self_x m))"
    and inv: "np_linalg_inv L (xT_dot_x (self_x m)) = Inr Xi"
    and sq: "square (snd (shape (self_x m))) Xi"
    and d: "distinct (column_names (self_x m))"
    and j: "j < snd (shape (self_x m))"
  shows "\<exists>res. self_results m' = Some res
     \<and> map fst res = column_names (self_x m)
     \<and> map_of res (column_names (self_x m) ! j) =
         Some [(''coefficient'', opt_x r ! j),
               (''standard_error'',
                  diag (map (map fsqrt) (scale (dispersion (self_x m) (opt_x r)) Xi)) ! j),
               (''z_stat'', opt_x r ! j
                  / diag (map (map fsqrt) (scale (dispersion (self_x m) (opt_x r)) Xi)) ! j),
               (''p_value'', Fin 2 * stat_norm_sf L (fabs (opt_x r ! j
                  / diag (map (map fsqrt) (scale (dispersion (self_x m) (opt_x r)) Xi)) ! j)))]"
proof -
  let ?beta = "opt_x r"
  let ?se = "diag (map (map fsqrt) (scale (dispersion (self_x m) ?beta) Xi))"
  let ?z = "map2 (/) ?beta ?se"
  let ?p = "map (\<lambda>z. Fin 2 * stat_norm_sf L (fabs z)) ?z"
  let ?res = "fill_results (column_names (self_x m)) (logit_entry ?beta ?se ?z ?p)"
  have "logistic_regression L m = Inr m'"
    using ty fit by (simp add: fit_model_def)
  then have m': "m' = m\<lparr>self_results := Some ?res\<rparr>"
    using logistic_regression_Series [OF y opt inv] by simp
  have jn: "j < length (column_names (self_x m))"
    using j by (simp add: shape_def column_names_def)
  have look: "map_of ?res (column_names (self_x m) ! j) = Some (logit_entry ?beta ?se ?z ?p j)"
    using d jn by (rule fill_results_lookup)
  have lse: "length ?se = snd (shape (self_x m))"
    using sq j by (rule diag_sqrt_nth(2))
  have z: "?z ! j = ?beta ! j / ?se ! j" and jz: "j < length ?z"
    using j len lse by simp_all
  have p: "?p ! j = Fin 2 * stat_norm_sf L (fabs (?z ! j))"
    using jz by simp
  show ?thesis
    using m' look z p d by (simp add: logit_entry_def fill_results_keys)
qed


text \<open>
  Claim C6, as amended. When the entry of the covariance matrix under the square root
  for column \<open>j\<close> is negative, the standard error and the z-statistic stored for that
  column are NaN. The fit is not aborted: the results have a record for every column, in
  column order. The record of column \<open>j\<close> is the usual dictionary of four numbers; no
  warning is attached to it.
\<close>

theorem logistic_negative_variance:
  assumes "self_regression_type m = ''logit''" and "self_y m = YSeries y"
    and "fit_model L m = Inr m'"
    and "minimize L (log_likelihood (self_x m) y)
           (replicate (snd (shape (self_x m))) (Fin (1 / 10))) (gradient (self_x m) y) = Inr r"
    and "length (opt_x r) = snd (shape (self_x m))"
    and "np_linalg_inv L (xT_dot_x (self_x m)) = Inr Xi"
    and "square (snd (shape (self_x m))) Xi"
    and "distinct (column_names (self_x m))"
    and "j < snd (shape (self_x m))"
    and "negative (scale (dispersion (self_x m) (opt_x r)) Xi ! j ! j)"
  shows "\<exists>res entry. self_results m' = Some res
     \<and> map fst res = column_names (self_x m)
     \<and> map_of res (column_names (self_x m) ! j) = Some entry
     \<and> map fst entry = [''coefficient'', ''standard_error'', ''z_stat'', ''p_value'']
     \<and> map_of entry ''standard_error'' = Some NaN
     \<and> map_of entry ''z_stat'' = Some NaN"
proof -
  have "fsqrt (scale (dispersion (self_x m) (opt_x r)) Xi ! j ! j) = NaN"
    using assms(10) by (auto simp: negative_def split: fl.splits)
  then have "diag (map (map fsqrt) (scale (dispersion (self_x m) (opt_x r)) Xi)) ! j = NaN"
    using diag_sqrt_nth(1) [OF assms(7,9)] by simp
  then show ?thesis
    using logit_lookup [OF assms(1-9)] by auto
qed

text \<open>
  Claim C4, as amended. The logistic fit never reads what the optimiser reports about
  convergence: a library whose optimiser returns the same results with the flag
  \<open>success\<close> set to any value \<open>s\<close> gives the same outcome of the fit. In particular a
  result reported as not converged is used like any other, and nothing is raised for it.
\<close>

theorem fit_ignores_convergence_report:
  "fit_model (L\<lparr>minimize := (\<lambda>f x0 jac. case minimize L f x0 jac of
                                 Inl e \<Rightarrow> Inl e | Inr r \<Rightarrow> Inr (r\<lparr>opt_success := s\<rparr>))\<rparr>) m
     = fit_model L m"
  by (simp add: fit_model_def ols_regression_def logistic_regression_def Let_def
      split: sum.splits yval.splits)

text \<open>The logistic fit of the example data, step by step.\<close>

lemma binary_fields:
  "self_y binary_model = YSeries binary_y" "self_x binary_model = scenario_x"
  "self_regression_type binary_model = ''logit''"
  by (simp_all add: binary_model_def)

lemma binary_dispersion: "dispersion scenario_x [Fin 0] = Fin (3 / 4)"
  by (simp add: dispersion_def fitted_prob_def sigmoid_def iloc_def dot_def scenario_x_def
      shape_def upt_rec minus_fl_def)

lemma answering_minimize:
  "minimize (lib_answering Z r) f x0 jac = Inr r" "np_linalg_inv (lib_answering Z r) A = Inr Z"
  "stat_norm_sf (lib_answering Z r) = known_tail"
  by (simp_all add: lib_answering_def)

lemma binary_fit:
  "fit_model (lib_answering [[Fin (1 / 14)]] \<lparr>opt_x = [Fin 0], opt_success = s\<rparr>) binary_model =
     Inr (binary_model\<lparr>self_results :=
        Some [(''x'', [(''coefficient'', Fin 0), (''standard_error'', Fin (sqrt (3 / 56))),
                       (''z_stat'', Fin 0), (''p_value'', Fin 1)])]\<rparr>)"
proof -
  have se: "diag (map (map fsqrt) (scale (Fin (3 / 4)) [[Fin (1 / 14)]])) = [Fin (sqrt (3 / 56))]"
    by (simp add: diag_def scale_def)
  have f: "fill_results [''x''] (logit_entry [Fin 0] [Fin (sqrt (3 / 56))] [Fin 0] [Fin 1])
      = [(''x'', [(''coefficient'', Fin 0), (''standard_error'', Fin (sqrt (3 / 56))),
                  (''z_stat'', Fin 0), (''p_value'', Fin 1)])]"
    by (simp add: fill_results_def enumerate_eq_zip logit_entry_def)
  show ?thesis
    using logistic_regression_Series [OF binary_fields(1) answering_minimize(1,2),
        of "[[Fin (1 / 14)]]" "\<lparr>opt_x = [Fin 0], opt_success = s\<rparr>"]
    by (simp add: fit_model_def binary_fields scenario_shape binary_dispersion se
        answering_minimize known_tail_def f)
qed

lemma negative_fit:
  "fit_model (lib_answering [[Fin (- 1)]] \<lparr>opt_x = [Fin 0], opt_success = True\<rparr>) binary_model =
     Inr (binary_model\<lparr>self_results :=
        Some [(''x'', [(''coefficient'', Fin 0), (''standard_error'', NaN),
                       (''z_stat'', NaN), (''p_value'', NaN)])]\<rparr>)"
proof -
  have se: "diag (map (map fsqrt) (scale (Fin (3 / 4)) [[Fin (- 1)]])) = [NaN]"
    by (simp add: diag_def scale_def)
  have f: "fill_results [''x''] (logit_entry [Fin 0] [NaN] [NaN] [NaN])
      = [(''x'', [(''coefficient'', Fin 0), (''standard_error'', NaN),
                  (''z_stat'', NaN), (''p_value'', NaN)])]"
    by (simp add: fill_results_def enumerate_eq_zip logit_entry_def)
  show ?thesis
    using logistic_regression_Series [OF binary_fields(1) answering_minimize(1,2),
        of "[[Fin (- 1)]]" "\<lparr>opt_x = [Fin 0], opt_success = True\<rparr>"]
    by (simp add: fit_model_def binary_fields scenario_shape binary_dispersion se
        answering_minimize known_tail_def f)
qed



text \<open>
  The theorem on negative entries at the example data, with an inverse routine that
  answers the matrix \<open>-1\<close>: the entry under the square root is \<open>-3/4\<close>.
\<close>

theorem logistic_negative_variance_witness:
  "\<exists>m' res entry.
     fit_model (lib_answering [[Fin (- 1)]] \<lparr>opt_x = [Fin 0], opt_success = True\<rparr>) binary_model
       = Inr m'
     \<and> square (snd (shape (self_x binary_model))) [[Fin (- 1)]]
     \<and> negative (scale (dispersion (self_x binary_model) [Fin 0]) [[Fin (- 1)]] ! 0 ! 0)
     \<and> self_results m' = Some res \<and> map fst res = [''x''] \<and> map_of res ''x'' = Some entry
     \<and> map fst entry = [''coefficient'', ''standard_error'', ''z_stat'', ''p_value'']
     \<and> map_of entry ''standard_error'' = Some NaN \<and> map_of entry ''z_stat'' = Some NaN"
proof -
  let ?L = "lib_answering [[Fin (- 1)]] \<lparr>opt_x = [Fin 0], opt_success = True\<rparr>"
  have sq: "square (snd (shape (self_x binary_model))) [[Fin (- 1)]]"
    and len: "length (opt_x \<lparr>opt_x = [Fin 0], opt_success = True\<rparr>)
        = snd (shape (self_x binary_model))"
    and d: "distinct (column_names (self_x binary_model))"
    and j: "0 < snd (shape (self_x binary_model))"
    by (simp_all add: binary_fields scenario_shape square_def)
  have neg: "negative (scale (dispersion (self_x binary_model)
      (opt_x \<lparr>opt_x = [Fin 0], opt_success = True\<rparr>)) [[Fin (- 1)]] ! 0 ! 0)"
    by (simp add: binary_fields binary_dispersion scale_def negative_def)
  from logistic_negative_variance
    [OF binary_fields(3) binary_fields(1) negative_fit answering_minimize(1) len
        answering_minimize(2) sq d j neg]
  show ?thesis
    using negative_fit sq neg by (simp add: binary_fields scenario_shape)
qed

text \<open>
  Claim C6 as stated fails. The inverse routine answers a matrix with a negative diagonal
  entry (as rounding can for an ill-conditioned matrix): the entry under the square root is
  negative, and the record stored for the column is the plain dictionary of four numbers,
  three of them NaN, with no warning attached.
\<close>

theorem logistic_warning_counterexample:
  "negative (scale (dispersion scenario_x [Fin 0]) [[Fin (- 1)]] ! 0 ! 0)
   \<and> fit_model (lib_answering [[Fin (- 1)]] \<lparr>opt_x = [Fin 0], opt_success = True\<rparr>) binary_model =
     Inr (binary_model\<lparr>self_results :=
        Some [(''x'', [(''coefficient'', Fin 0), (''standard_error'', NaN),
                       (''z_stat'', NaN), (''p_value'', NaN)])]\<rparr>)"
  using negative_fit by (simp add: binary_dispersion scale_def negative_def)

text \<open>
  Claim C4 as stated fails. The optimiser returns \<open>beta = 0\<close> and reports that it has not
  converged: the fit raises nothing and stores the results for that \<open>beta\<close>, at which
  the gradient of the negative log-likelihood is \<open>-2\<close>, far from zero.
\<close>

theorem logistic_convergence_counterexample:
  "minimize (lib_answering [[Fin (1 / 14)]] \<lparr>opt_x = [Fin 0], opt_success = False\<rparr>)
      (log_likelihood scenario_x binary_y) (replicate 1 (Fin (1 / 10))) (gradient scenario_x binary_y)
     = Inr \<lparr>opt_x = [Fin 0], opt_success = False\<rparr>
   \<and> fit_model (lib_answering [[Fin (1 / 14)]] \<lparr>opt_x = [Fin 0], opt_success = False\<rparr>)
        binary_model =
     Inr (binary_model\<lparr>self_results :=
        Some [(''x'', [(''coefficient'', Fin 0), (''standard_error'', Fin (sqrt (3 / 56))),
                       (''z_stat'', Fin 0), (''p_value'', Fin 1)])]\<rparr>)
   \<and> gradient scenario_x binary_y [Fin 0] = Inr [Fin (- 2)]"
proof -
  have "gradient scenario_x binary_y [Fin 0] = Inr [Fin (- 2)]"
    by (simp add: gradient_def prob_def iloc_def dot_def scenario_x_def binary_y_def shape_def
        upt_rec minus_fl_def)
  then show ?thesis
    using binary_fit [of False] by (simp add: answering_minimize)
qed

section \<open>The design matrix and the keys of the results\<close>

lemma fit_model_keys:
  assumes "self_y m = YSeries y" and "fit_model L m = Inr m'"
    and "distinct (column_names (self_x m))"
  shows "\<exists>res. self_results m' = Some res \<and> map fst res = column_names (self_x m)"
proof (cases "self_regression_type m = ''ols''")
  case True
  then have ols: "ols_regression L m = Inr m'"
    using assms(2) by (simp add: fit_model_def)
  obtain Z yv
    where "np_linalg_solve L (xT_dot_x (self_x m)) (eye (snd (shape (self_x m)))) = Inr Z"
      and "align (df_index (self_x m)) y = Inr yv"
    using ols_regression_Inr_D [OF assms(1) ols] by auto
  from ols_regression_Series [OF assms(1) this] ols show ?thesis
    using assms(3) by (auto simp: fill_results_keys)
next
  case False
  then have logit: "logistic_regression L m = Inr m'"
    using assms(2) by (simp add: fit_model_def split: if_splits)
  obtain r Xi
    where "minimize L (log_likelihood (self_x m) y)
             (replicate (snd (shape (self_x m))) (Fin (1 / 10))) (gradient (self_x m) y) = Inr r"
      and "np_linalg_inv L (xT_dot_x (self_x m)) = Inr Xi"
    using logistic_regression_Inr_D [OF assms(1) logit] by auto
  from logistic_regression_Series [OF assms(1) this] logit show ?thesis
    using assms(3) by (auto simp: fill_results_keys)
qed

text \<open>
  Claim C8, as amended. With the intercept flag true, a table that has no column named
  \<open>intercept\<close> and whose row labels all lie in \<open>0 .. n-1\<close> becomes the design matrix of
  its own columns, in their order, followed by a column \<open>intercept\<close> of \<open>n\<close> ones. For
  both model types, when the column names of the design matrix are distinct, a successful
  fit stores exactly one record per column, keyed by the column names in column order.
\<close>

theorem design_matrix_and_result_keys:
  assumes "t = ''ols'' \<or> t = ''logit''"
    and "''intercept'' \<notin> set (column_names fx)"
    and "list_all (in_range (length (df_index fx))) (df_index fx)"
  shows "\<exists>m. init (PyFrame fx) (PySeries sy) (PyBool True) (PyStr t) = Inr m
     \<and> df_columns (self_x m)
         = df_columns fx @ [(''intercept'', replicate (length (df_index fx)) (Fin 1))]
     \<and> (distinct (column_names (self_x m)) \<and> fit_model L m = Inr m'
         \<longrightarrow> (\<exists>res. self_results m' = Some res
                \<and> map fst res = column_names fx @ [''intercept'']
                \<and> length res = snd (shape (self_x m))))"
proof -
  let ?x = "assign fx ''intercept'' (pd_Series (replicate (length (df_index fx)) (Fin 1)))"
  let ?m = "\<lparr>self_x = ?x, self_y = YSeries sy, self_create_intercept = True,
             self_regression_type = t, self_results = None\<rparr>"
  have i: "init (PyFrame fx) (PySeries sy) (PyBool True) (PyStr t) = Inr ?m"
    using assms(1) by (rule init_intercept)
  have ones: "reindex (pd_Series (replicate (length (df_index fx)) (Fin 1))) (df_index fx)
      = replicate (length (df_index fx)) (Fin 1)"
    using assms(3) ones_iff [of "length (df_index fx)" "df_index fx"] by (simp add: reindex_ones)
  have cols: "df_columns ?x
      = df_columns fx @ [(''intercept'', replicate (length (df_index fx)) (Fin 1))]"
    using assms(2) by (simp add: assign_new ones)
  have names: "column_names ?x = column_names fx @ [''intercept'']"
    using cols by (simp add: column_names_def)
  have keys: "\<exists>res. self_results m' = Some res
                \<and> map fst res = column_names fx @ [''intercept'']
                \<and> length res = snd (shape ?x)"
    if "distinct (column_names ?x)" and "fit_model L ?m = Inr m'"
  proof -
    have "\<exists>res. self_results m' = Some res \<and> map fst res = column_names (self_x ?m)"
      by (rule fit_model_keys [of ?m sy L m']) (use that in simp_all)
    then obtain res where r: "self_results m' = Some res" "map fst res = column_names ?x"
      by auto
    have "length res = length (map fst res)" by simp
    also have "\<dots> = snd (shape ?x)"
      unfolding r(2) by (simp add: column_names_def shape_def)
    finally show ?thesis using r names by auto
  qed
  show ?thesis
    by (rule exI [of _ ?m]) (use i cols keys in auto)
qed

text \<open>
  The theorem at the example data with the intercept switched on. The matrix
  \<open>x.T.dot(x)\<close> has the rows \<open>14, 6\<close> and \<open>6, 3\<close>, and the solver answers its
  inverse.
\<close>

theorem design_matrix_and_result_keys_witness:
  "''intercept'' \<notin> set (column_names scenario_x)
   \<and> list_all (in_range (length (df_index scenario_x))) (df_index scenario_x)
   \<and> (\<exists>m m' res.
        init (PyFrame scenario_x) (PySeries scenario_y) (PyBool True) (PyStr ''ols'') = Inr m
        \<and> df_columns (self_x m)
            = [(''x'', [Fin 1, Fin 2, Fin 3]), (''intercept'', [Fin 1, Fin 1, Fin 1])]
        \<and> distinct (column_names (self_x m))
        \<and> fit_model (lib_answering [[Fin (1 / 2), Fin (- 1)], [Fin (- 1), Fin (7 / 3)]]
                        \<lparr>opt_x = [Fin 0, Fin 0], opt_success = True\<rparr>) m = Inr m'
        \<and> self_results m' = Some res \<and> map fst res = [''x'', ''intercept''])"
proof -
  let ?L = "lib_answering [[Fin (1 / 2), Fin (- 1)], [Fin (- 1), Fin (7 / 3)]]
              \<lparr>opt_x = [Fin 0, Fin 0], opt_success = True\<rparr>"
  let ?x = "\<lparr>df_index = [LInt 0, LInt 1, LInt 2],
              df_columns = [(''x'', [Fin 1, Fin 2, Fin 3]), (''intercept'', [Fin 1, Fin 1, Fin 1])]\<rparr>"
  let ?m = "\<lparr>self_x = ?x, self_y = YSeries scenario_y, self_create_intercept = True,
             self_regression_type = ''ols'', self_results = None\<rparr>"
  have h1: "''intercept'' \<notin> set (column_names scenario_x)"
    and h2: "list_all (in_range (length (df_index scenario_x))) (df_index scenario_x)"
    by (simp_all add: scenario_x_def column_names_def in_range_def)
  have i: "init (PyFrame scenario_x) (PySeries scenario_y) (PyBool True) (PyStr ''ols'') = Inr ?m"
    by (simp add: init_intercept assign_def Let_def column_names_def reindex_def pd_Series_def
        scenario_x_def upt_rec)
  have "align (df_index (self_x ?m)) scenario_y = Inr [Fin 2, Fin 4, Fin 6]"
    by (simp add: align_def scenario_y_def)
  from ols_regression_Series [OF _ _ this, of ?L "[[Fin (1 / 2), Fin (- 1)], [Fin (- 1), Fin (7 / 3)]]"]
  obtain m' where fit: "fit_model ?L ?m = Inr m'"
    by (simp add: fit_model_def lib_answering_def)
  from design_matrix_and_result_keys [OF _ h1 h2, of "''ols''" scenario_y ?L m']
  show ?thesis
    using h1 h2 i fit by (auto simp: column_names_def scenario_x_def)
qed

text \<open>The fit of the table with two columns of one name, step by step.\<close>

lemma twin_init:
  "init (PyFrame twin_x) (PySeries twin_y) (PyBool True) (PyStr ''ols'') = Inr twin_model"
  by (simp add: init_intercept assign_def Let_def column_names_def reindex_def pd_Series_def
      twin_x_def twin_model_def twin_design_def upt_rec)

lemma twin_fit:
  "fit_model twin_lib twin_model =
     Inr (twin_model\<lparr>self_results :=
        Some [(''a'', [(''coefficient'', Fin 2), (''standard_error'', Fin 0),
                       (''t_stat'', PInf), (''p_value'', Fin 0)]),
              (''intercept'', [(''coefficient'', Fin 2), (''standard_error'', Fin 0),
                               (''t_stat'', PInf), (''p_value'', Fin 0)])]\<rparr>)"
proof -
  let ?Z = "[[Fin (1 / 2), Fin 0, Fin 0], [Fin 0, Fin (1 / 2), Fin 0], [Fin 0, Fin 0, Fin (1 / 4)]]"
  have y: "self_y twin_model = YSeries twin_y" and x: "self_x twin_model = twin_design"
    and ty: "self_regression_type twin_model = ''ols''"
    by (simp_all add: twin_model_def)
  have solve: "np_linalg_solve twin_lib (xT_dot_x (self_x twin_model))
      (eye (snd (shape (self_x twin_model)))) = Inr ?Z"
    by (simp add: twin_lib_def lib_answering_def)
  have al: "align (df_index (self_x twin_model)) twin_y = Inr [Fin 3, Fin 1, Fin 4, Fin 0]"
    by (simp add: align_def twin_model_def twin_design_def twin_y_def)
  have sh: "fst (shape twin_design) = 4" "snd (shape twin_design) = 3"
    "column_names twin_design = [''a'', ''a'', ''intercept'']"
    by (simp_all add: twin_design_def shape_def column_names_def)
  have b: "ols_beta ?Z twin_design [Fin 3, Fin 1, Fin 4, Fin 0] = [Fin 1, Fin 2, Fin 2]"
    by (simp add: ols_beta_def mat_vec_def xT_dot_def dot_def twin_design_def)
  have s: "ols_shat twin_design [Fin 3, Fin 1, Fin 4, Fin 0] [Fin 1, Fin 2, Fin 2] = Fin 0"
    by (simp add: ols_shat_def x_dot_def iloc_def dot_def twin_design_def shape_def upt_rec
        minus_fl_def)
  have e: "ols_serror (Fin 0) ?Z = [Fin 0, Fin 0, Fin 0]"
    by (simp add: ols_serror_def diag_def scale_def upt_rec)
  have t: "ols_tstat [Fin 1, Fin 2, Fin 2] [Fin 0, Fin 0, Fin 0] = [PInf, PInf, PInf]"
    by (simp add: ols_tstat_def enumerate_eq_zip upt_rec)
  have p: "stat_t_sf twin_lib PInf 1 = Fin 0"
    by (simp add: twin_lib_def lib_answering_def known_tail_def)
  have f: "fill_results [''a'', ''a'', ''intercept'']
        (ols_entry [Fin 1, Fin 2, Fin 2] [Fin 0, Fin 0, Fin 0] [PInf, PInf, PInf]
           [Fin 0, Fin 0, Fin 0])
      = [(''a'', [(''coefficient'', Fin 2), (''standard_error'', Fin 0),
                  (''t_stat'', PInf), (''p_value'', Fin 0)]),
         (''intercept'', [(''coefficient'', Fin 2), (''standard_error'', Fin 0),
                          (''t_stat'', PInf), (''p_value'', Fin 0)])]"
    by (simp add: fill_results_def enumerate_eq_zip ols_entry_def upt_rec)
  show ?thesis
    using ols_regression_Series [OF y solve al]
    by (simp add: fit_model_def ty x sh b s e t p f)
qed

text \<open>
  Claim C8 as stated fails in three ways. A table that already has a column
  \<open>intercept\<close> gets no additional column: that column is overwritten where it stands.
  A table with two columns of one name has a design matrix of three columns and, once
  fitted, two records, the second column's record having replaced the first's. And with
  the row labels 1 and 2 the intercept of the second row is not 1 but NaN.
\<close>

theorem design_matrix_counterexample:
  "init (PyFrame \<lparr>df_index = [LInt 0, LInt 1],
                   df_columns = [(''intercept'', [Fin 5, Fin 6]), (''x'', [Fin 1, Fin 2])]\<rparr>)
        (PySeries \<lparr>s_index = [LInt 0, LInt 1], s_values = [Fin 4, Fin 6]\<rparr>)
        (PyBool True) (PyStr ''ols'')
     = Inr \<lparr>self_x = \<lparr>df_index = [LInt 0, LInt 1],
                       df_columns = [(''intercept'', [Fin 1, Fin 1]), (''x'', [Fin 1, Fin 2])]\<rparr>,
            self_y = YSeries \<lparr>s_index = [LInt 0, LInt 1], s_values = [Fin 4, Fin 6]\<rparr>,
            self_create_intercept = True, self_regression_type = ''ols'',
            self_results = None\<rparr>
   \<and> init (PyFrame twin_x) (PySeries twin_y) (PyBool True) (PyStr ''ols'') = Inr twin_model
   \<and> snd (shape (self_x twin_model)) = 3
   \<and> fit_model twin_lib twin_model =
       Inr (twin_model\<lparr>self_results :=
          Some [(''a'', [(''coefficient'', Fin 2), (''standard_error'', Fin 0),
                         (''t_stat'', PInf), (''p_value'', Fin 0)]),
                (''intercept'', [(''coefficient'', Fin 2), (''standard_error'', Fin 0),
                                 (''t_stat'', PInf), (''p_value'', Fin 0)])]\<rparr>)
   \<and> init (PyFrame \<lparr>df_index = [LInt 1, LInt 2], df_columns = [(''x'', [Fin 2, Fin 3])]\<rparr>)
        (PySeries \<lparr>s_index = [LInt 1, LInt 2], s_values = [Fin 4, Fin 6]\<rparr>)
        (PyBool True) (PyStr ''ols'')
     = Inr \<lparr>self_x = \<lparr>df_index = [LInt 1, LInt 2],
                       df_columns = [(''x'', [Fin 2, Fin 3]), (''intercept'', [Fin 1, NaN])]\<rparr>,
            self_y = YSeries \<lparr>s_index = [LInt 1, LInt 2], s_values = [Fin 4, Fin 6]\<rparr>,
            self_create_intercept = True, self_regression_type = ''ols'',
            self_results = None\<rparr>"
proof -
  have overwritten:
    "init (PyFrame \<lparr>df_index = [LInt 0, LInt 1],
                   df_columns = [(''intercept'', [Fin 5, Fin 6]), (''x'', [Fin 1, Fin 2])]\<rparr>)
        (PySeries \<lparr>s_index = [LInt 0, LInt 1], s_values = [Fin 4, Fin 6]\<rparr>)
        (PyBool True) (PyStr ''ols'')
     = Inr \<lparr>self_x = \<lparr>df_index = [LInt 0, LInt 1],
                       df_columns = [(''intercept'', [Fin 1, Fin 1]), (''x'', [Fin 1, Fin 2])]\<rparr>,
            self_y = YSeries \<lparr>s_index = [LInt 0, LInt 1], s_values = [Fin 4, Fin 6]\<rparr>,
            self_create_intercept = True, self_regression_type = ''ols'',
            self_results = None\<rparr>"
    by (simp add: init_intercept assign_def Let_def column_names_def reindex_def pd_Series_def
        upt_rec)
  have three: "snd (shape (self_x twin_model)) = 3"
    by (simp add: twin_model_def twin_design_def shape_def)
  have missing:
    "init (PyFrame \<lparr>df_index = [LInt 1, LInt 2], df_columns = [(''x'', [Fin 2, Fin 3])]\<rparr>)
        (PySeries \<lparr>s_index = [LInt 1, LInt 2], s_values = [Fin 4, Fin 6]\<rparr>)
        (PyBool True) (PyStr ''ols'')
     = Inr \<lparr>self_x = \<lparr>df_index = [LInt 1, LInt 2],
                       df_columns = [(''x'', [Fin 2, Fin 3]), (''intercept'', [Fin 1, NaN])]\<rparr>,
            self_y = YSeries \<lparr>s_index = [LInt 1, LInt 2], s_values = [Fin 4, Fin 6]\<rparr>,
            self_create_intercept = True, self_regression_type = ''ols'',
            self_results = None\<rparr>"
    by (simp add: init_intercept assign_def Let_def column_names_def reindex_def pd_Series_def
        upt_rec)
  show ?thesis
    by (intro conjI) (fact overwritten twin_init three twin_fit missing)+
qed

section \<open>The coefficients and the calls of the solver\<close>






lemma ols_regression_traced:
  assumes "self_y m = YSeries y"
  shows "ols_regression L m =
     (case snd (ols_series_traced L (self_x m) y) of
        Inl e \<Rightarrow> Inl e | Inr r \<Rightarrow> Inr (m\<lparr>self_results := Some r\<rparr>))"
  using assms
  by (simp add: ols_regression_def ols_series_traced_def Let_def split: sum.splits)





end
